theory Spec2Isabelle
  imports Main "HOL-Library.Word"
begin

section \<open>The load-balancer pool member resource (gcore/resource\_gcore\_lbmember.go)\<close>

text \<open>
  The resource's create, read, update, delete and import operations are embedded as HOL
  functions. The schema-typed resource data is a record; the remote control plane is an
  explicit world state \<open>'w\<close> that every remote call takes and returns; Go errors are values of
  a datatype; a run-time panic (index out of range, nil pointer dereference) is an outcome
  of its own. Go's \<open>int\<close> is modelled by \<open>int\<close>: no operation of this file does arithmetic
  on a weight, a port or an identifier, so no wrap-around can occur.
\<close>

subsection \<open>Constants (lines 19-23)\<close>

definition minWeight :: int where
  "minWeight = 0"

definition maxWeight :: int where
  "maxWeight = 256"

definition LBMemberResourceTimeoutMinutes :: int where
  "LBMemberResourceTimeoutMinutes = 30"

subsection \<open>Errors and diagnostics\<close>

text \<open>
  A Go \<open>error\<close> value, by its dynamic type: \<open>gcorecloud.ErrDefault404\<close> (the only type the
  source switches on), an error built by \<open>fmt.Errorf\<close>, the two errors of the task poller,
  and any other error of a remote call. Each carries the text of its \<open>Error()\<close> method.
\<close>

datatype error =
    ErrDefault404 string
  | ErrFmt string
  | ErrTimeout string
  | ErrTaskFailed string
  | ErrOther string

fun Error_text :: "error \<Rightarrow> string" where
  "Error_text (ErrDefault404 s) = s"
| "Error_text (ErrFmt s) = s"
| "Error_text (ErrTimeout s) = s"
| "Error_text (ErrTaskFailed s) = s"
| "Error_text (ErrOther s) = s"

datatype diag_severity = Error | Warning

record Diagnostic =
  Severity :: diag_severity
  Summary :: string
  Detail :: string

type_synonym Diagnostics = "Diagnostic list"

text \<open>\<open>diag.FromErr\<close> on a non-nil error: one diagnostic of severity Error with the error's text.\<close>

definition FromErr :: "error \<Rightarrow> Diagnostics" where
  "FromErr err = [\<lparr>Severity = Error, Summary = Error_text err, Detail = []\<rparr>]"

text \<open>\<open>diag.Errorf\<close>, applied to the already formatted message.\<close>

definition Errorf :: "string \<Rightarrow> Diagnostics" where
  "Errorf msg = [\<lparr>Severity = Error, Summary = msg, Detail = []\<rparr>]"

text \<open>A panic of the Go run time, and the outcome of a call that may panic.\<close>

datatype panic = IndexOutOfRange nat nat | NilPointerDereference

datatype 'a outcome = Returned 'a | Panicked panic

subsection \<open>Formatting with the verb \<open>%d\<close>\<close>

definition digit_char :: "nat \<Rightarrow> char" where
  "digit_char n = ''0123456789'' ! n"

function fmt_nat :: "nat \<Rightarrow> string" where
  "fmt_nat n = (if n < 10 then [digit_char n] else fmt_nat (n div 10) @ [digit_char (n mod 10)])"
  by pat_completeness auto
termination
  by (relation "measure (\<lambda>n. n)") auto

declare fmt_nat.simps [simp del]

definition fmt_d :: "int \<Rightarrow> string" where
  "fmt_d i = (if i < 0 then CHR ''-'' # fmt_nat (nat (- i)) else fmt_nat (nat i))"

subsection \<open>The validation functions of the schema (lines 102-133)\<close>

text \<open>
  \<open>net.IP\<close> is a byte slice; \<open>None\<close> is the nil slice, which \<open>net.ParseIP\<close> returns for a
  string that is no IP literal. \<open>net.ParseIP\<close> itself and the rendering of a \<open>cty.Path\<close>
  under the verb \<open>%q\<close> belong to Go's libraries: both are parameters of the validation.
\<close>

type_synonym IP = "8 word list option"

definition address_ValidateDiagFunc ::
  "(string \<Rightarrow> IP) \<Rightarrow> ('p \<Rightarrow> string) \<Rightarrow> string \<Rightarrow> 'p \<Rightarrow> Diagnostics" where
  "address_ValidateDiagFunc ParseIP fmt_q v key =
     (let ip = ParseIP v in
      if ip \<noteq> None then []
      else FromErr (ErrFmt (fmt_q key @ '' must be a valid ip, got: '' @ v)))"

definition weight_ValidateDiagFunc :: "int \<Rightarrow> 'p \<Rightarrow> Diagnostics" where
  "weight_ValidateDiagFunc v path =
     (if v \<ge> minWeight \<and> v \<le> maxWeight then []
      else Errorf (''Valid values: '' @ fmt_d minWeight @ '' to '' @ fmt_d maxWeight
                   @ '' got: '' @ fmt_d v))"

subsection \<open>The data of the remote interface\<close>

text \<open>
  The types of the client library, as far as the source reads and writes their fields. A
  pool member's address is a pointer to a \<open>net.IP\<close> (the source dereferences it, line 265,
  and calls a method through it, line 230): \<open>None\<close> is the nil pointer.
\<close>

record PoolMember =
  pm_Address :: "IP option"
  pm_ID :: string
  pm_Weight :: int
  pm_SubnetID :: string
  pm_InstanceID :: string
  pm_ProtocolPort :: int
  pm_OperatingStatus :: string

record Pool =
  pool_ID :: string
  pool_Name :: string
  Members :: "PoolMember list"

record CreatePoolMemberOpts =
  Address :: IP
  ProtocolPort :: int
  Weight :: int
  SubnetID :: string
  InstanceID :: string
  ID :: string

record UpdateOpts =
  upd_Name :: string
  upd_Members :: "CreatePoolMemberOpts list"

record RetryConfig =
  Amount :: int
  Interval :: int

record RequestOpts =
  ConflictRetryAmount :: int
  ConflictRetryInterval :: int

record TaskResults =
  Tasks :: "string list"

datatype TaskState = TaskInProgress | TaskSucceeded | TaskFailed

record TaskInfo =
  task_State :: TaskState
  task_Failure :: string
  task_Data :: string

subsection \<open>The resource data\<close>

text \<open>
  \<open>schema.ResourceData\<close> for the schema of lines 53-155: the identity (\<open>d.Id()\<close>,
  \<open>d.SetId\<close>), one field per attribute (\<open>d.Get\<close>, \<open>d.Set\<close>), and the three time budgets
  in whole seconds (\<open>int(d.Timeout(k).Seconds())\<close>).
\<close>

record resource_data =
  resource_Id :: string
  project_id :: int
  region_id :: int
  project_name :: string
  region_name :: string
  pool_id :: string
  address :: string
  protocol_port :: int
  weight :: int
  subnet_id :: string
  instance_id :: string
  operating_status :: string
  last_updated :: string
  Timeout_Create :: int
  Timeout_Update :: int
  Timeout_Delete :: int

subsection \<open>The services the operations call\<close>

text \<open>
  What the operations call and this file does not define: the remote calls of the client
  library (each takes the remote world and returns the new one), the construction of the
  client, the retry configuration, and the functions of Go's libraries. \<open>poll_attempts\<close>
  is the number of status polls that fit into a time budget; \<open>derived_project_id\<close> and
  \<open>derived_region_id\<close> are the values the state reversion writes back.
\<close>

record ('c, 'w) services =
  CreateClient :: "resource_data \<Rightarrow> 'w \<Rightarrow> (error + 'c) \<times> 'w"
  GetConflictRetryConfig :: "int \<Rightarrow> RetryConfig"
  lbpools_CreateMember ::
    "'c \<Rightarrow> string \<Rightarrow> CreatePoolMemberOpts \<Rightarrow> RequestOpts \<Rightarrow> 'w \<Rightarrow> (error + TaskResults) \<times> 'w"
  lbpools_Get :: "'c \<Rightarrow> string \<Rightarrow> 'w \<Rightarrow> (error + Pool) \<times> 'w"
  lbpools_Update ::
    "'c \<Rightarrow> string \<Rightarrow> UpdateOpts \<Rightarrow> RequestOpts \<Rightarrow> 'w \<Rightarrow> (error + TaskResults) \<times> 'w"
  lbpools_DeleteMember ::
    "'c \<Rightarrow> string \<Rightarrow> string \<Rightarrow> RequestOpts \<Rightarrow> 'w \<Rightarrow> (error + TaskResults) \<times> 'w"
  lbpools_ExtractPoolMemberIDFromTask :: "TaskInfo \<Rightarrow> error + string"
  tasks_Get :: "'c \<Rightarrow> string \<Rightarrow> 'w \<Rightarrow> (error + TaskInfo) \<times> 'w"
  poll_attempts :: "int \<Rightarrow> nat"
  net_ParseIP :: "string \<Rightarrow> IP"
  IP_String :: "IP \<Rightarrow> string"
  fmt_TaskInfo :: "TaskInfo \<Rightarrow> string"
  time_Now_RFC850 :: "'w \<Rightarrow> string"
  derived_project_id :: "resource_data \<Rightarrow> int"
  derived_region_id :: "resource_data \<Rightarrow> int"

text \<open>The request options every mutating call is given (lines 178-182, 287-291, 331-335).\<close>

definition conflict_RequestOpts :: "('c, 'w) services \<Rightarrow> int \<Rightarrow> RequestOpts" where
  "conflict_RequestOpts env timeout =
     (let rc = GetConflictRetryConfig env timeout in
      \<lparr>ConflictRetryAmount = Amount rc, ConflictRetryInterval = Interval rc\<rparr>)"

subsection \<open>The task poller\<close>

text \<open>
  Modelled from the spec: the wait loop of \<open>tasks.WaitTaskAndReturnResult\<close>, which belongs
  to the client library and is not among the sources. Section 4.1 of the spec gives its
  contract: it fetches the task's status repeatedly until (a) the task has succeeded,
  when it invokes the extraction function once and returns that function's result or
  error; (b) the task has failed, when it returns an error naming the task and the
  failure detail; (c) the time budget is used up, when it returns a timeout error. An
  error of fetching the status is returned at once, with the task's identity added. The
  first argument is the number of polls left. The wording of the three error texts is
  not fixed by the spec.
\<close>

fun WaitForTask ::
  "nat \<Rightarrow> ('c, 'w) services \<Rightarrow> 'c \<Rightarrow> string \<Rightarrow> (string \<Rightarrow> 'w \<Rightarrow> (error + 'r) \<times> 'w)
   \<Rightarrow> 'w \<Rightarrow> (error + 'r) \<times> 'w" where
  "WaitForTask 0 env client task retriever w =
     (Inl (ErrTimeout (''timeout waiting for task '' @ task)), w)"
| "WaitForTask (Suc n) env client task retriever w =
     (case tasks_Get env client task w of
        (Inl err, w1) \<Rightarrow> (Inl (ErrFmt (''task '' @ task @ '': '' @ Error_text err)), w1)
      | (Inr info, w1) \<Rightarrow>
          (case task_State info of
             TaskSucceeded \<Rightarrow> retriever task w1
           | TaskFailed \<Rightarrow>
               (Inl (ErrTaskFailed (''task '' @ task @ '' failed: '' @ task_Failure info)), w1)
           | TaskInProgress \<Rightarrow> WaitForTask n env client task retriever w1))"

text \<open>
  Modelled from the spec: \<open>tasks.WaitTaskAndReturnResult\<close> with the arguments the source
  passes (client, task, a boolean, the time budget in seconds, the extraction function).
  Section 4.1: the timeout bounds the total wait, so the budget allows a number of polls,
  \<open>poll_attempts\<close>; the boolean does not change the result.
\<close>

definition WaitTaskAndReturnResult ::
  "('c, 'w) services \<Rightarrow> 'c \<Rightarrow> string \<Rightarrow> bool \<Rightarrow> int \<Rightarrow> (string \<Rightarrow> 'w \<Rightarrow> (error + 'r) \<times> 'w)
   \<Rightarrow> 'w \<Rightarrow> (error + 'r) \<times> 'w" where
  "WaitTaskAndReturnResult env client task suspends waitSeconds retriever w =
     WaitForTask (poll_attempts env waitSeconds) env client task retriever w"

text \<open>
  The worlds reached by \<open>k\<close> polls in a row that all find the task in progress: \<open>Some\<close>
  of the world after the last of them, \<open>None\<close> when one of the polls finds otherwise.
\<close>

fun in_progress_polls :: "('c, 'w) services \<Rightarrow> 'c \<Rightarrow> string \<Rightarrow> nat \<Rightarrow> 'w \<Rightarrow> 'w option" where
  "in_progress_polls env client task 0 w = Some w"
| "in_progress_polls env client task (Suc k) w =
     (case tasks_Get env client task w of
        (Inl err, w1) \<Rightarrow> None
      | (Inr info, w1) \<Rightarrow>
          (if task_State info = TaskInProgress then in_progress_polls env client task k w1
           else None))"

subsection \<open>Import (lines 37-51)\<close>

text \<open>
  \<open>ImportStringParserExtended\<close> is a function of this repository that is not among the
  sources; it and its three helpers below follow the spec.

  Modelled from the spec: the tokens of a delimiter-separated string (section 6: "four
  delimiter-separated tokens"), for \<open>ImportStringParserExtended\<close>.
\<close>

fun splitOn :: "char \<Rightarrow> string \<Rightarrow> string list" where
  "splitOn c [] = [[]]"
| "splitOn c (x # xs) =
     (if x = c then [] # splitOn c xs
      else (case splitOn c xs of [] \<Rightarrow> [[x]] | t # ts \<Rightarrow> (x # t) # ts))"

text \<open>
  Modelled from the spec: the value of a decimal digit, for the numeric identifiers of
  \<open>ImportStringParserExtended\<close> (section 6: project and region are numeric IDs).
\<close>

definition digit_value :: "char \<Rightarrow> nat option" where
  "digit_value c =
     map_of [(CHR ''0'', 0), (CHR ''1'', 1), (CHR ''2'', 2), (CHR ''3'', 3), (CHR ''4'', 4),
             (CHR ''5'', 5), (CHR ''6'', 6), (CHR ''7'', 7), (CHR ''8'', 8), (CHR ''9'', 9)] c"

text \<open>
  Modelled from the spec: the number a string of decimal digits denotes, for the numeric
  identifiers of \<open>ImportStringParserExtended\<close>.
\<close>

fun parse_digits :: "string \<Rightarrow> nat \<Rightarrow> nat option" where
  "parse_digits [] acc = Some acc"
| "parse_digits (c # cs) acc =
     (case digit_value c of None \<Rightarrow> None | Some k \<Rightarrow> parse_digits cs (10 * acc + k))"

text \<open>
  Modelled from the spec: a numeric identifier of \<open>ImportStringParserExtended\<close> is a token
  of one or more decimal digits.
\<close>

definition parse_number :: "string \<Rightarrow> int option" where
  "parse_number s = (if s = [] then None else map_option int (parse_digits s 0))"

text \<open>
  Modelled from the spec: \<open>ImportStringParserExtended\<close>. Section 6 of the spec: the
  composite identifier is a single string of four delimiter-separated tokens, the project
  identifier, the region identifier, the member identifier and the pool identifier;
  section 8 gives the delimiter by example (\<open>42/5/m-100/p-7\<close>). The project and the
  region are numeric. Any other string is an error, whose wording the spec does not fix.
\<close>

definition ImportStringParserExtended :: "string \<Rightarrow> error + (int \<times> int \<times> string \<times> string)" where
  "ImportStringParserExtended infoStr =
     (case splitOn CHR ''/'' infoStr of
        [p, r, m, l] \<Rightarrow>
          (case (parse_number p, parse_number r) of
             (Some projectID, Some regionID) \<Rightarrow> Inr (projectID, regionID, m, l)
           | _ \<Rightarrow> Inl (ErrFmt (''wrong input id: '' @ infoStr)))
      | _ \<Rightarrow> Inl (ErrFmt (''wrong input id: '' @ infoStr)))"

text \<open>
  The importer's \<open>StateContext\<close>. The resource data is mutated in place: the result pairs
  the returned value (an error, or the list holding the resource data) with the resource
  data as the call leaves it.
\<close>

definition Importer_StateContext ::
  "resource_data \<Rightarrow> (error + resource_data list) \<times> resource_data" where
  "Importer_StateContext d =
     (case ImportStringParserExtended (resource_Id d) of
        Inl err \<Rightarrow> (Inl err, d)
      | Inr (projectID, regionID, memberID, lbPoolID) \<Rightarrow>
          (let d1 = d\<lparr>project_id := projectID\<rparr>;
               d2 = d1\<lparr>region_id := regionID\<rparr>;
               d3 = d2\<lparr>pool_id := lbPoolID\<rparr>;
               d4 = d3\<lparr>resource_Id := memberID\<rparr>
           in (Inr [d4], d4)))"

subsection \<open>Read (lines 211-244)\<close>

text \<open>
  Modelled from the spec: \<open>revertState\<close> is a function of this repository that is not among
  the sources. Section 4.4 of the spec: Read "always also re-derives the project/region
  identifying fields from ambient/derived state". It writes the fields it is given by
  name, of the two it knows, and no other field.
\<close>

definition revertState :: "('c, 'w) services \<Rightarrow> resource_data \<Rightarrow> string list \<Rightarrow> resource_data" where
  "revertState env d names =
     (let d1 = (if ''project_id'' \<in> set names then d\<lparr>project_id := derived_project_id env d\<rparr>
                else d)
      in (if ''region_id'' \<in> set names then d1\<lparr>region_id := derived_region_id env d\<rparr>
          else d1))"

text \<open>
  The loop of lines 228-237. It has no \<open>break\<close>: every member is visited, and every member
  whose identity is \<open>mid\<close> overwrites the six fields. Calling \<open>String\<close> through a nil
  address pointer panics.
\<close>

fun read_members_loop ::
  "('c, 'w) services \<Rightarrow> string \<Rightarrow> PoolMember list \<Rightarrow> resource_data \<Rightarrow> resource_data outcome" where
  "read_members_loop env mid [] d = Returned d"
| "read_members_loop env mid (pm # pms) d =
     (if mid = pm_ID pm then
        (case pm_Address pm of
           None \<Rightarrow> Panicked NilPointerDereference
         | Some ip \<Rightarrow>
             read_members_loop env mid pms
               (d\<lparr>address := IP_String env ip,
                  protocol_port := pm_ProtocolPort pm,
                  weight := pm_Weight pm,
                  subnet_id := pm_SubnetID pm,
                  instance_id := pm_InstanceID pm,
                  operating_status := pm_OperatingStatus pm\<rparr>))
      else read_members_loop env mid pms d)"

text \<open>
  An operation returns its diagnostics, the resource data as it leaves it (the source
  mutates it in place) and the remote world, unless it panics.
\<close>

definition resourceLBMemberRead ::
  "('c, 'w) services \<Rightarrow> resource_data \<Rightarrow> 'w \<Rightarrow> (Diagnostics \<times> resource_data \<times> 'w) outcome" where
  "resourceLBMemberRead env d w =
     (case CreateClient env d w of
        (Inl err, w0) \<Rightarrow> Returned (FromErr err, d, w0)
      | (Inr client, w0) \<Rightarrow>
          (case lbpools_Get env client (pool_id d) w0 of
             (Inl err, w1) \<Rightarrow> Returned (FromErr err, d, w1)
           | (Inr pool, w1) \<Rightarrow>
               (case read_members_loop env (resource_Id d) (Members pool) d of
                  Panicked p \<Rightarrow> Panicked p
                | Returned d1 \<Rightarrow>
                    Returned ([], revertState env d1 [''project_id'', ''region_id''], w1))))"

subsection \<open>Create (lines 159-209)\<close>

text \<open>The extraction function handed to the poller (lines 188-198).\<close>

definition create_retriever ::
  "('c, 'w) services \<Rightarrow> 'c \<Rightarrow> string \<Rightarrow> 'w \<Rightarrow> (error + string) \<times> 'w" where
  "create_retriever env client task w =
     (case tasks_Get env client task w of
        (Inl err, w1) \<Rightarrow>
          (Inl (ErrFmt (''cannot get task with ID: '' @ task @ ''. Error: '' @ Error_text err)), w1)
      | (Inr taskInfo, w1) \<Rightarrow>
          (case lbpools_ExtractPoolMemberIDFromTask env taskInfo of
             Inl err \<Rightarrow>
               (Inl (ErrFmt (''cannot retrieve LBMember ID from task info: '' @ Error_text err)), w1)
           | Inr pmID \<Rightarrow> (Inr pmID, w1)))"

text \<open>
  \<open>results.Tasks[0]\<close> (line 187) panics on an empty task list. The poller returns what
  the extraction returned, a string, so the type assertion of line 204 holds. The
  diagnostics of the final Read are dropped (line 205); what Read did to the resource
  data stays.
\<close>

definition resourceLBMemberCreate ::
  "('c, 'w) services \<Rightarrow> resource_data \<Rightarrow> 'w \<Rightarrow> (Diagnostics \<times> resource_data \<times> 'w) outcome" where
  "resourceLBMemberCreate env d w =
     (case CreateClient env d w of
        (Inl err, w0) \<Rightarrow> Returned (FromErr err, d, w0)
      | (Inr client, w0) \<Rightarrow>
          (let opts = \<lparr>Address = net_ParseIP env (address d),
                       ProtocolPort = protocol_port d,
                       Weight = weight d,
                       SubnetID = subnet_id d,
                       InstanceID = instance_id d,
                       ID = []\<rparr>;
               timeout = Timeout_Create d
           in (case lbpools_CreateMember env client (pool_id d) opts
                       (conflict_RequestOpts env timeout) w0 of
                 (Inl err, w1) \<Rightarrow> Returned (FromErr err, d, w1)
               | (Inr results, w1) \<Rightarrow>
                   (case Tasks results of
                      [] \<Rightarrow> Panicked (IndexOutOfRange 0 0)
                    | taskID # rest \<Rightarrow>
                        (case WaitTaskAndReturnResult env client taskID True timeout
                                (create_retriever env client) w1 of
                           (Inl err, w2) \<Rightarrow> Returned (FromErr err, d, w2)
                         | (Inr pmID, w2) \<Rightarrow>
                             (case resourceLBMemberRead env (d\<lparr>resource_Id := pmID\<rparr>) w2 of
                                Panicked p \<Rightarrow> Panicked p
                              | Returned (diags_read, d1, w3) \<Rightarrow> Returned ([], d1, w3)))))))"

subsection \<open>Update (lines 246-315)\<close>

text \<open>
  The replacement collection of lines 261-283: \<open>make\<close> gives a slice of zero values of the
  pool's length, and the loop assigns position \<open>i\<close> for the \<open>i\<close>-th member. Dereferencing a
  nil address pointer (line 265) panics.
\<close>

definition zero_CreatePoolMemberOpts :: CreatePoolMemberOpts where
  "zero_CreatePoolMemberOpts =
     \<lparr>Address = None, ProtocolPort = 0, Weight = 0, SubnetID = [], InstanceID = [], ID = []\<rparr>"

fun update_members_loop ::
  "('c, 'w) services \<Rightarrow> resource_data \<Rightarrow> PoolMember list \<Rightarrow> nat \<Rightarrow> CreatePoolMemberOpts list
   \<Rightarrow> CreatePoolMemberOpts list outcome" where
  "update_members_loop env d [] i members = Returned members"
| "update_members_loop env d (pm # pms) i members =
     (if pm_ID pm \<noteq> resource_Id d then
        (case pm_Address pm of
           None \<Rightarrow> Panicked NilPointerDereference
         | Some ip \<Rightarrow>
             update_members_loop env d pms (Suc i)
               (members[i := \<lparr>Address = ip,
                               ProtocolPort = pm_ProtocolPort pm,
                               Weight = pm_Weight pm,
                               SubnetID = pm_SubnetID pm,
                               InstanceID = pm_InstanceID pm,
                               ID = pm_ID pm\<rparr>]))
      else
        update_members_loop env d pms (Suc i)
          (members[i := \<lparr>Address = net_ParseIP env (address d),
                          ProtocolPort = protocol_port d,
                          Weight = weight d,
                          SubnetID = subnet_id d,
                          InstanceID = instance_id d,
                          ID = resource_Id d\<rparr>]))"

definition update_members ::
  "('c, 'w) services \<Rightarrow> resource_data \<Rightarrow> PoolMember list \<Rightarrow> CreatePoolMemberOpts list outcome" where
  "update_members env d poolMembers =
     update_members_loop env d poolMembers 0
       (replicate (length poolMembers) zero_CreatePoolMemberOpts)"

text \<open>The extraction function handed to the poller (lines 297-307).\<close>

definition update_retriever ::
  "('c, 'w) services \<Rightarrow> 'c \<Rightarrow> string \<Rightarrow> 'w \<Rightarrow> (error + string) \<times> 'w" where
  "update_retriever env client task w =
     (case tasks_Get env client task w of
        (Inl err, w1) \<Rightarrow>
          (Inl (ErrFmt (''cannot get task with ID: '' @ task @ ''. Error: '' @ Error_text err)), w1)
      | (Inr taskInfo, w1) \<Rightarrow>
          (case lbpools_ExtractPoolMemberIDFromTask env taskInfo of
             Inl err \<Rightarrow>
               (Inl (ErrFmt (''cannot retrieve LBPool ID from task info: '' @ Error_text err
                             @ '', '' @ fmt_TaskInfo env taskInfo @ '', '' @ task)), w1)
           | Inr lbPoolID \<Rightarrow> (Inr lbPoolID, w1)))"

definition resourceLBMemberUpdate ::
  "('c, 'w) services \<Rightarrow> resource_data \<Rightarrow> 'w \<Rightarrow> (Diagnostics \<times> resource_data \<times> 'w) outcome" where
  "resourceLBMemberUpdate env d w =
     (case CreateClient env d w of
        (Inl err, w0) \<Rightarrow> Returned (FromErr err, d, w0)
      | (Inr client, w0) \<Rightarrow>
          (case lbpools_Get env client (pool_id d) w0 of
             (Inl err, w1) \<Rightarrow> Returned (FromErr err, d, w1)
           | (Inr pool, w1) \<Rightarrow>
               (case update_members env d (Members pool) of
                  Panicked p \<Rightarrow> Panicked p
                | Returned members \<Rightarrow>
                    (let opts = \<lparr>upd_Name = pool_Name pool, upd_Members = members\<rparr>;
                         timeout = Timeout_Update d
                     in (case lbpools_Update env client (pool_ID pool) opts
                                 (conflict_RequestOpts env timeout) w1 of
                           (Inl err, w2) \<Rightarrow> Returned (FromErr err, d, w2)
                         | (Inr results, w2) \<Rightarrow>
                             (case Tasks results of
                                [] \<Rightarrow> Panicked (IndexOutOfRange 0 0)
                              | taskID # rest \<Rightarrow>
                                  (case WaitTaskAndReturnResult env client taskID True timeout
                                          (update_retriever env client) w2 of
                                     (Inl err, w3) \<Rightarrow> Returned (FromErr err, d, w3)
                                   | (Inr lbPoolID, w3) \<Rightarrow>
                                       resourceLBMemberRead env
                                         (d\<lparr>last_updated := time_Now_RFC850 env w3\<rparr>) w3)))))))"

subsection \<open>Delete (lines 317-369)\<close>

text \<open>The loop of lines 354-358: the first member with the identity ends it with an error.\<close>

fun delete_verify_loop :: "string \<Rightarrow> PoolMember list \<Rightarrow> error option" where
  "delete_verify_loop mid [] = None"
| "delete_verify_loop mid (pm # pms) =
     (if pm_ID pm = mid then Some (ErrFmt (''pool member '' @ mid @ '' still exist''))
      else delete_verify_loop mid pms)"

text \<open>The extraction function handed to the poller (lines 348-361); it returns nil on success.\<close>

definition delete_retriever ::
  "('c, 'w) services \<Rightarrow> 'c \<Rightarrow> string \<Rightarrow> string \<Rightarrow> string \<Rightarrow> 'w \<Rightarrow> (error + unit) \<times> 'w" where
  "delete_retriever env client pid mid task w =
     (case lbpools_Get env client pid w of
        (Inl err, w1) \<Rightarrow> (Inl err, w1)
      | (Inr pool, w1) \<Rightarrow>
          (case delete_verify_loop mid (Members pool) of
             Some err \<Rightarrow> (Inl err, w1)
           | None \<Rightarrow> (Inr (), w1)))"

definition resourceLBMemberDelete ::
  "('c, 'w) services \<Rightarrow> resource_data \<Rightarrow> 'w \<Rightarrow> (Diagnostics \<times> resource_data \<times> 'w) outcome" where
  "resourceLBMemberDelete env d w =
     (case CreateClient env d w of
        (Inl err, w0) \<Rightarrow> Returned (FromErr err, d, w0)
      | (Inr client, w0) \<Rightarrow>
          (let mid = resource_Id d;
               pid = pool_id d;
               timeout = Timeout_Delete d
           in (case lbpools_DeleteMember env client pid mid (conflict_RequestOpts env timeout) w0 of
                 (Inl err, w1) \<Rightarrow>
                   (case err of
                      ErrDefault404 s \<Rightarrow> Returned ([], d\<lparr>resource_Id := []\<rparr>, w1)
                    | _ \<Rightarrow> Returned (FromErr err, d, w1))
               | (Inr results, w1) \<Rightarrow>
                   (case Tasks results of
                      [] \<Rightarrow> Panicked (IndexOutOfRange 0 0)
                    | taskID # rest \<Rightarrow>
                        (case WaitTaskAndReturnResult env client taskID True timeout
                                (delete_retriever env client pid mid) w1 of
                           (Inl err, w2) \<Rightarrow> Returned (FromErr err, d, w2)
                         | (Inr none, w2) \<Rightarrow> Returned ([], d\<lparr>resource_Id := []\<rparr>, w2))))))"

subsection \<open>The task poller with transient extraction errors\<close>

text \<open>
  Modelled from the spec: the wait loop of the task poller as sections 4.1, 4.4 and 7 of
  the spec describe it together; the poller itself (\<open>tasks.WaitTaskAndReturnResult\<close>)
  belongs to the client library and is not among the sources. Section 4.1: it fetches the
  task's status until the task has succeeded, when it invokes the extraction function, or
  has failed, or the time budget is used up. Section 4.4: an extraction function may
  "return a transient error causing another poll", and "the poller's own timeout bounds
  how long this verification loop may run". Section 7: any other error of the extraction
  is surfaced. Which errors are transient is the parameter \<open>transient\<close>; with no transient
  error this is \<open>WaitForTask\<close>. The second argument is the number of polls left.
\<close>

fun WaitForTask_retrying ::
  "(error \<Rightarrow> bool) \<Rightarrow> nat \<Rightarrow> ('c, 'w) services \<Rightarrow> 'c \<Rightarrow> string
   \<Rightarrow> (string \<Rightarrow> 'w \<Rightarrow> (error + 'r) \<times> 'w) \<Rightarrow> 'w \<Rightarrow> (error + 'r) \<times> 'w" where
  "WaitForTask_retrying transient 0 env client task retriever w =
     (Inl (ErrTimeout (''timeout waiting for task '' @ task)), w)"
| "WaitForTask_retrying transient (Suc n) env client task retriever w =
     (case tasks_Get env client task w of
        (Inl err, w1) \<Rightarrow> (Inl (ErrFmt (''task '' @ task @ '': '' @ Error_text err)), w1)
      | (Inr info, w1) \<Rightarrow>
          (case task_State info of
             TaskSucceeded \<Rightarrow>
               (case retriever task w1 of
                  (Inl err, w2) \<Rightarrow>
                    (if transient err
                     then WaitForTask_retrying transient n env client task retriever w2
                     else (Inl err, w2))
                | (Inr r, w2) \<Rightarrow> (Inr r, w2))
           | TaskFailed \<Rightarrow>
               (Inl (ErrTaskFailed (''task '' @ task @ '' failed: '' @ task_Failure info)), w1)
           | TaskInProgress \<Rightarrow> WaitForTask_retrying transient n env client task retriever w1))"


text \<open>
  Delete (lines 317-369) with the poller it calls at line 348 as a parameter;
  \<open>resourceLBMemberDelete\<close> is the instance for \<open>WaitTaskAndReturnResult\<close>.
\<close>

definition resourceLBMemberDelete_with ::
  "('c \<Rightarrow> string \<Rightarrow> bool \<Rightarrow> int \<Rightarrow> (string \<Rightarrow> 'w \<Rightarrow> (error + unit) \<times> 'w)
     \<Rightarrow> 'w \<Rightarrow> (error + unit) \<times> 'w)
   \<Rightarrow> ('c, 'w) services \<Rightarrow> resource_data \<Rightarrow> 'w
   \<Rightarrow> (Diagnostics \<times> resource_data \<times> 'w) outcome" where
  "resourceLBMemberDelete_with poller env d w =
     (case CreateClient env d w of
        (Inl err, w0) \<Rightarrow> Returned (FromErr err, d, w0)
      | (Inr client, w0) \<Rightarrow>
          (let mid = resource_Id d;
               pid = pool_id d;
               timeout = Timeout_Delete d
           in (case lbpools_DeleteMember env client pid mid (conflict_RequestOpts env timeout) w0 of
                 (Inl err, w1) \<Rightarrow>
                   (case err of
                      ErrDefault404 s \<Rightarrow> Returned ([], d\<lparr>resource_Id := []\<rparr>, w1)
                    | _ \<Rightarrow> Returned (FromErr err, d, w1))
               | (Inr results, w1) \<Rightarrow>
                   (case Tasks results of
                      [] \<Rightarrow> Panicked (IndexOutOfRange 0 0)
                    | taskID # rest \<Rightarrow>
                        (case poller client taskID True timeout
                                (delete_retriever env client pid mid) w1 of
                           (Inl err, w2) \<Rightarrow> Returned (FromErr err, d, w2)
                         | (Inr none, w2) \<Rightarrow> Returned ([], d\<lparr>resource_Id := []\<rparr>, w2))))))"


subsection \<open>A scripted environment\<close>

text \<open>
  Concrete services, resource data and pool members, on which the theorems below are
  instantiated. The remote world is the number of remote calls made so far. Every call
  succeeds; a status poll made in world \<open>w\<close> finds the task in state \<open>ts w\<close>, and a pool
  fetch made in world \<open>w\<close> finds the members \<open>ps w\<close>. A time budget of \<open>n\<close> seconds allows
  \<open>n\<close> polls. In \<open>stub_services\<close> a task has succeeded whenever it is polled, and the pool
  is empty.
\<close>

definition scripted_services ::
  "(nat \<Rightarrow> TaskState) \<Rightarrow> (nat \<Rightarrow> PoolMember list) \<Rightarrow> (unit, nat) services" where
  "scripted_services ts ps =
     \<lparr>CreateClient = (\<lambda>d w. (Inr (), w)),
      GetConflictRetryConfig = (\<lambda>timeout. \<lparr>Amount = 1, Interval = 1\<rparr>),
      lbpools_CreateMember = (\<lambda>client pid opts ropts w. (Inr \<lparr>Tasks = [''t-1'']\<rparr>, Suc w)),
      lbpools_Get =
        (\<lambda>client pid w. (Inr \<lparr>pool_ID = pid, pool_Name = ''pool'', Members = ps w\<rparr>, Suc w)),
      lbpools_Update = (\<lambda>client pid opts ropts w. (Inr \<lparr>Tasks = [''t-1'']\<rparr>, Suc w)),
      lbpools_DeleteMember = (\<lambda>client pid mid ropts w. (Inr \<lparr>Tasks = [''t-1'']\<rparr>, Suc w)),
      lbpools_ExtractPoolMemberIDFromTask = (\<lambda>info. Inr (task_Data info)),
      tasks_Get =
        (\<lambda>client task w.
           (Inr \<lparr>task_State = ts w, task_Failure = [], task_Data = ''m-100''\<rparr>, Suc w)),
      poll_attempts = (\<lambda>seconds. nat seconds),
      net_ParseIP = (\<lambda>s. if s = ''10.0.0.7'' then Some [10, 0, 0, 7] else None),
      IP_String = (\<lambda>ip. if ip = Some [10, 0, 0, 7] then ''10.0.0.7'' else ''<nil>''),
      fmt_TaskInfo = (\<lambda>info. task_Data info),
      time_Now_RFC850 = (\<lambda>w. ''Saturday, 31-Oct-26 08:00:00 UTC''),
      derived_project_id = project_id,
      derived_region_id = region_id\<rparr>"

definition stub_services :: "(unit, nat) services" where
  "stub_services = scripted_services (\<lambda>w. TaskSucceeded) (\<lambda>w. [])"

text \<open>Services whose mutating calls succeed with an empty task list.\<close>

definition no_task_services :: "(unit, nat) services" where
  "no_task_services =
     stub_services
       \<lparr>lbpools_CreateMember := (\<lambda>client pid opts ropts w. (Inr \<lparr>Tasks = []\<rparr>, Suc w)),
        lbpools_Update := (\<lambda>client pid opts ropts w. (Inr \<lparr>Tasks = []\<rparr>, Suc w)),
        lbpools_DeleteMember := (\<lambda>client pid mid ropts w. (Inr \<lparr>Tasks = []\<rparr>, Suc w))\<rparr>"

text \<open>Services whose remove-member call fails with the given error.\<close>

definition delete_error_services :: "error \<Rightarrow> (unit, nat) services" where
  "delete_error_services err =
     stub_services\<lparr>lbpools_DeleteMember := (\<lambda>client pid mid ropts w. (Inl err, Suc w))\<rparr>"

definition sample_data :: resource_data where
  "sample_data =
     \<lparr>resource_Id = ''2'', project_id = 42, region_id = 5, project_name = [],
      region_name = [], pool_id = ''p-7'', address = ''10.0.0.7'', protocol_port = 80,
      weight = 42, subnet_id = ''s-2'', instance_id = ''i-2'', operating_status = [],
      last_updated = [], Timeout_Create = 3, Timeout_Update = 3, Timeout_Delete = 3\<rparr>"

definition sample_member :: "string \<Rightarrow> int \<Rightarrow> PoolMember" where
  "sample_member i w =
     \<lparr>pm_Address = Some (Some [10, 0, 0, 7]), pm_ID = i, pm_Weight = w, pm_SubnetID = ''s-1'',
      pm_InstanceID = ''i-1'', pm_ProtocolPort = 8080, pm_OperatingStatus = ''ONLINE''\<rparr>"

section \<open>Properties\<close>

text \<open>
  C7. For every integer weight \<open>w\<close> the weight validation returns no diagnostic if and only
  if \<open>0 \<le> w \<le> 256\<close>; \<open>-1\<close> and \<open>257\<close> are rejected, each with one diagnostic of severity
  Error that names the valid range and the value. The validation is a pure function of
  the value: it makes no remote call.
\<close>

theorem weight_validation_accepts_iff_in_range:
  "(weight_ValidateDiagFunc w path = []) = (0 \<le> w \<and> w \<le> 256)
   \<and> weight_ValidateDiagFunc (-1) path =
       [\<lparr>Severity = Error, Summary = ''Valid values: 0 to 256 got: -1'', Detail = []\<rparr>]
   \<and> weight_ValidateDiagFunc 257 path =
       [\<lparr>Severity = Error, Summary = ''Valid values: 0 to 256 got: 257'', Detail = []\<rparr>]"
  by (simp add: weight_ValidateDiagFunc_def minWeight_def maxWeight_def Errorf_def fmt_d_def
      fmt_nat.simps digit_char_def)

text \<open>
  C8. The address validation returns no diagnostic exactly for the strings that
  \<open>net.ParseIP\<close> parses (a non-nil result). For every other string it returns one
  diagnostic of severity Error whose summary is the \<open>%q\<close> rendering of the attribute path
  it was called with (the offending field), the words \<open>must be a valid ip, got:\<close> and the
  rejected string itself.
\<close>

theorem address_validation_accepts_iff_parses:
  "(address_ValidateDiagFunc ParseIP fmt_q v key = []) = (ParseIP v \<noteq> None)
   \<and> address_ValidateDiagFunc ParseIP fmt_q v key =
       (if ParseIP v \<noteq> None then []
        else [\<lparr>Severity = Error,
               Summary = fmt_q key @ '' must be a valid ip, got: '' @ v,
               Detail = []\<rparr>])"
  by (simp add: address_ValidateDiagFunc_def FromErr_def)

subsection \<open>Import\<close>

lemma ImportStringParserExtended_example:
  "ImportStringParserExtended ''42/5/m-100/p-7'' = Inr (42, 5, ''m-100'', ''p-7'')"
  by (simp add: ImportStringParserExtended_def parse_number_def digit_value_def)

lemma ImportStringParserExtended_three_tokens:
  "ImportStringParserExtended ''42/5/m-100'' = Inl (ErrFmt ''wrong input id: 42/5/m-100'')"
  by (simp add: ImportStringParserExtended_def parse_number_def digit_value_def)

lemma ImportStringParserExtended_not_numeric:
  "ImportStringParserExtended ''42/x/m-100/p-7'' = Inl (ErrFmt ''wrong input id: 42/x/m-100/p-7'')"
  by (simp add: ImportStringParserExtended_def parse_number_def digit_value_def)

text \<open>
  C9. Import of the composite identifier \<open>42/5/m-100/p-7\<close> sets the project to 42, the
  region to 5, the resource identity to \<open>m-100\<close> and the pool to \<open>p-7\<close>, and returns the
  resource data so changed. In general the importer assigns the parser's four results in
  the order project, region, member, pool; when the parser returns an error (as it does
  for \<open>42/5/m-100\<close>, which has three tokens, and for \<open>42/x/m-100/p-7\<close>, whose region is
  not numeric) the importer returns that error and leaves the resource data as it was.
\<close>

theorem import_decodes_composite_identifier:
  "Importer_StateContext (d\<lparr>resource_Id := ''42/5/m-100/p-7''\<rparr>) =
     (Inr [d\<lparr>resource_Id := ''m-100'', project_id := 42, region_id := 5, pool_id := ''p-7''\<rparr>],
      d\<lparr>resource_Id := ''m-100'', project_id := 42, region_id := 5, pool_id := ''p-7''\<rparr>)
   \<and> (case ImportStringParserExtended (resource_Id d) of
         Inl err \<Rightarrow> Importer_StateContext d = (Inl err, d)
       | Inr (projectID, regionID, memberID, lbPoolID) \<Rightarrow>
           Importer_StateContext d =
             (Inr [d\<lparr>project_id := projectID, region_id := regionID, pool_id := lbPoolID,
                     resource_Id := memberID\<rparr>],
              d\<lparr>project_id := projectID, region_id := regionID, pool_id := lbPoolID,
                resource_Id := memberID\<rparr>))
   \<and> Importer_StateContext (d\<lparr>resource_Id := ''42/5/m-100''\<rparr>) =
       (Inl (ErrFmt ''wrong input id: 42/5/m-100''), d\<lparr>resource_Id := ''42/5/m-100''\<rparr>)
   \<and> Importer_StateContext (d\<lparr>resource_Id := ''42/x/m-100/p-7''\<rparr>) =
       (Inl (ErrFmt ''wrong input id: 42/x/m-100/p-7''), d\<lparr>resource_Id := ''42/x/m-100/p-7''\<rparr>)"
proof (intro conjI)
  show "Importer_StateContext (d\<lparr>resource_Id := ''42/5/m-100/p-7''\<rparr>) =
     (Inr [d\<lparr>resource_Id := ''m-100'', project_id := 42, region_id := 5, pool_id := ''p-7''\<rparr>],
      d\<lparr>resource_Id := ''m-100'', project_id := 42, region_id := 5, pool_id := ''p-7''\<rparr>)"
    by (simp add: Importer_StateContext_def ImportStringParserExtended_example Let_def)
  show "case ImportStringParserExtended (resource_Id d) of
         Inl err \<Rightarrow> Importer_StateContext d = (Inl err, d)
       | Inr (projectID, regionID, memberID, lbPoolID) \<Rightarrow>
           Importer_StateContext d =
             (Inr [d\<lparr>project_id := projectID, region_id := regionID, pool_id := lbPoolID,
                     resource_Id := memberID\<rparr>],
              d\<lparr>project_id := projectID, region_id := regionID, pool_id := lbPoolID,
                resource_Id := memberID\<rparr>)"
    by (simp add: Importer_StateContext_def Let_def split: sum.splits prod.splits)
  show "Importer_StateContext (d\<lparr>resource_Id := ''42/5/m-100''\<rparr>) =
       (Inl (ErrFmt ''wrong input id: 42/5/m-100''), d\<lparr>resource_Id := ''42/5/m-100''\<rparr>)"
    by (simp add: Importer_StateContext_def ImportStringParserExtended_three_tokens)
  show "Importer_StateContext (d\<lparr>resource_Id := ''42/x/m-100/p-7''\<rparr>) =
       (Inl (ErrFmt ''wrong input id: 42/x/m-100/p-7''), d\<lparr>resource_Id := ''42/x/m-100/p-7''\<rparr>)"
    by (simp add: Importer_StateContext_def ImportStringParserExtended_not_numeric)
qed

subsection \<open>The replacement collection of Update\<close>

lemma update_members_loop_result:
  "\<lbrakk>\<forall>pm \<in> set ms. pm_ID pm \<noteq> resource_Id d \<longrightarrow> pm_Address pm \<noteq> None;
    length members = i + length ms\<rbrakk>
   \<Longrightarrow> update_members_loop env d ms i members =
       Returned (take i members @
         map (\<lambda>pm. if pm_ID pm \<noteq> resource_Id d
                    then \<lparr>Address = (case pm_Address pm of Some ip \<Rightarrow> ip | None \<Rightarrow> None),
                          ProtocolPort = pm_ProtocolPort pm, Weight = pm_Weight pm,
                          SubnetID = pm_SubnetID pm, InstanceID = pm_InstanceID pm,
                          ID = pm_ID pm\<rparr>
                    else \<lparr>Address = net_ParseIP env (address d),
                          ProtocolPort = protocol_port d, Weight = weight d,
                          SubnetID = subnet_id d, InstanceID = instance_id d,
                          ID = resource_Id d\<rparr>) ms)"
proof (induction ms arbitrary: i members)
  case Nil
  then show ?case by simp
next
  case (Cons pm pms)
  have len: "i < length members" using Cons.prems(2) by simp
  have tk: "\<And>y. take (Suc i) (members[i := y]) = take i members @ [y]"
    using len by (simp add: take_Suc_conv_app_nth)
  have prem: "\<forall>pm \<in> set pms. pm_ID pm \<noteq> resource_Id d \<longrightarrow> pm_Address pm \<noteq> None"
    using Cons.prems(1) by simp
  have len': "\<And>y. length (members[i := y]) = Suc i + length pms"
    using Cons.prems(2) by simp
  show ?case
  proof (cases "pm_ID pm \<noteq> resource_Id d")
    case True
    then obtain ip where ip: "pm_Address pm = Some ip" using Cons.prems(1) by auto
    show ?thesis using True ip Cons.IH[OF prem len'] tk by simp
  next
    case False
    show ?thesis using False Cons.IH[OF prem len'] tk by simp
  qed
qed

lemma update_members_loop_panics:
  "\<exists>pm \<in> set ms. pm_ID pm \<noteq> resource_Id d \<and> pm_Address pm = None
   \<Longrightarrow> update_members_loop env d ms i members = Panicked NilPointerDereference"
proof (induction ms arbitrary: i members)
  case Nil
  then show ?case by simp
next
  case (Cons pm pms)
  then show ?case by (cases "pm_Address pm") auto
qed

lemma update_members_result:
  assumes "\<forall>pm \<in> set ms. pm_ID pm \<noteq> resource_Id d \<longrightarrow> pm_Address pm \<noteq> None"
  shows "update_members env d ms =
       Returned (
         map (\<lambda>pm. if pm_ID pm \<noteq> resource_Id d
                    then \<lparr>Address = (case pm_Address pm of Some ip \<Rightarrow> ip | None \<Rightarrow> None),
                          ProtocolPort = pm_ProtocolPort pm, Weight = pm_Weight pm,
                          SubnetID = pm_SubnetID pm, InstanceID = pm_InstanceID pm,
                          ID = pm_ID pm\<rparr>
                    else \<lparr>Address = net_ParseIP env (address d),
                          ProtocolPort = protocol_port d, Weight = weight d,
                          SubnetID = subnet_id d, InstanceID = instance_id d,
                          ID = resource_Id d\<rparr>) ms)"
  unfolding update_members_def
  using update_members_loop_result[OF assms,
          of "replicate (length ms) zero_CreatePoolMemberOpts" 0 env]
  by simp

text \<open>
  C1 (as amended). For every current member collection in which each member whose identity
  differs from the resource's identity has an address (a non-nil pointer), and for every
  desired configuration, the replacement collection of Update has the length and the
  positional order of the current collection: at each position, a member whose identity
  differs from the resource's identity is copied verbatim (address, port, weight, subnet,
  instance and identity are the remote-observed values), and a member whose identity is
  the resource's identity gets the desired configuration's parsed address, port, weight,
  subnet and instance, paired with that identity.
\<close>

theorem update_members_replaces_target_only:
  assumes "\<forall>pm \<in> set ms. pm_ID pm \<noteq> resource_Id d \<longrightarrow> pm_Address pm \<noteq> None"
  shows "\<exists>members. update_members env d ms = Returned members \<and> length members = length ms \<and>
     (\<forall>i < length ms.
        (pm_ID (ms ! i) \<noteq> resource_Id d \<longrightarrow>
           pm_Address (ms ! i) = Some (Address (members ! i)) \<and>
           ProtocolPort (members ! i) = pm_ProtocolPort (ms ! i) \<and>
           Weight (members ! i) = pm_Weight (ms ! i) \<and>
           SubnetID (members ! i) = pm_SubnetID (ms ! i) \<and>
           InstanceID (members ! i) = pm_InstanceID (ms ! i) \<and>
           ID (members ! i) = pm_ID (ms ! i)) \<and>
        (pm_ID (ms ! i) = resource_Id d \<longrightarrow>
           members ! i = \<lparr>Address = net_ParseIP env (address d),
                          ProtocolPort = protocol_port d, Weight = weight d,
                          SubnetID = subnet_id d, InstanceID = instance_id d,
                          ID = resource_Id d\<rparr>))"
proof -
  have addr: "\<And>i. i < length ms \<Longrightarrow> pm_ID (ms ! i) \<noteq> resource_Id d
                \<Longrightarrow> \<exists>ip. pm_Address (ms ! i) = Some ip"
    using assms by (metis nth_mem not_None_eq)
  show ?thesis
    unfolding update_members_result[OF assms]
    by (rule exI, intro conjI, rule refl, simp, use addr in fastforce)
qed

text \<open>
  The example of the spec: members 1, 2 and 3 with weights 5, 9 and 1, and an update of
  member 2 to weight 42.
\<close>

theorem update_members_replaces_target_only_witness:
  "update_members stub_services sample_data
     [sample_member ''1'' 5, sample_member ''2'' 9, sample_member ''3'' 1] =
   Returned
     [\<lparr>Address = Some [10, 0, 0, 7], ProtocolPort = 8080, Weight = 5, SubnetID = ''s-1'',
       InstanceID = ''i-1'', ID = ''1''\<rparr>,
      \<lparr>Address = Some [10, 0, 0, 7], ProtocolPort = 80, Weight = 42, SubnetID = ''s-2'',
       InstanceID = ''i-2'', ID = ''2''\<rparr>,
      \<lparr>Address = Some [10, 0, 0, 7], ProtocolPort = 8080, Weight = 1, SubnetID = ''s-1'',
       InstanceID = ''i-1'', ID = ''3''\<rparr>]"
proof -
  let ?ms = "[sample_member ''1'' 5, sample_member ''2'' 9, sample_member ''3'' 1]"
  have h: "\<forall>pm \<in> set ?ms. pm_ID pm \<noteq> resource_Id sample_data \<longrightarrow> pm_Address pm \<noteq> None"
    by (simp add: sample_member_def)
  obtain members where m: "update_members stub_services sample_data ?ms = Returned members"
    and len: "length members = length ?ms"
    and el: "\<forall>i < length ?ms.
        (pm_ID (?ms ! i) \<noteq> resource_Id sample_data \<longrightarrow>
           pm_Address (?ms ! i) = Some (Address (members ! i)) \<and>
           ProtocolPort (members ! i) = pm_ProtocolPort (?ms ! i) \<and>
           Weight (members ! i) = pm_Weight (?ms ! i) \<and>
           SubnetID (members ! i) = pm_SubnetID (?ms ! i) \<and>
           InstanceID (members ! i) = pm_InstanceID (?ms ! i) \<and>
           ID (members ! i) = pm_ID (?ms ! i)) \<and>
        (pm_ID (?ms ! i) = resource_Id sample_data \<longrightarrow>
           members ! i = \<lparr>Address = net_ParseIP stub_services (address sample_data),
                          ProtocolPort = protocol_port sample_data, Weight = weight sample_data,
                          SubnetID = subnet_id sample_data, InstanceID = instance_id sample_data,
                          ID = resource_Id sample_data\<rparr>)"
    using update_members_replaces_target_only[OF h, of stub_services] by blast
  from len obtain a b c where abc: "members = [a, b, c]"
    by (cases members; simp; metis length_0_conv length_Suc_conv)
  have "a = \<lparr>Address = Some [10, 0, 0, 7], ProtocolPort = 8080, Weight = 5, SubnetID = ''s-1'',
       InstanceID = ''i-1'', ID = ''1''\<rparr>"
    using el[rule_format, of 0] abc by (simp add: sample_member_def sample_data_def)
  moreover have "b = \<lparr>Address = Some [10, 0, 0, 7], ProtocolPort = 80, Weight = 42,
       SubnetID = ''s-2'', InstanceID = ''i-2'', ID = ''2''\<rparr>"
    using el[rule_format, of 1] abc
    by (simp add: sample_member_def sample_data_def stub_services_def scripted_services_def)
  moreover have "c = \<lparr>Address = Some [10, 0, 0, 7], ProtocolPort = 8080, Weight = 1,
       SubnetID = ''s-1'', InstanceID = ''i-1'', ID = ''3''\<rparr>"
    using el[rule_format, of 2] abc by (simp add: sample_member_def sample_data_def)
  ultimately show ?thesis using m abc by simp
qed

text \<open>
  The claim as first stated, for every collection, fails: the first member has another
  identity and a nil address pointer, and the loop panics at line 265.
\<close>

theorem update_members_nil_address_counterexample:
  "update_members stub_services sample_data
     [(sample_member ''1'' 5)\<lparr>pm_Address := None\<rparr>, sample_member ''2'' 9] =
   Panicked NilPointerDereference"
  by (simp add: update_members_def sample_member_def sample_data_def)

text \<open>
  C5 (as amended). For every current member collection in which no member's identity is
  the resource's identity and every member has an address (a non-nil pointer), the
  replacement collection of Update is returned, and every member of it is the verbatim
  copy of the current member at its position. The desired configuration is substituted
  nowhere: the collection is the same for every desired configuration of that identity.
  The intended change is left out without an error.
\<close>

theorem update_members_without_target:
  assumes noid: "\<forall>pm \<in> set ms. pm_ID pm \<noteq> resource_Id d"
      and addr: "\<forall>pm \<in> set ms. pm_Address pm \<noteq> None"
  shows "\<exists>members. update_members env d ms = Returned members \<and> length members = length ms \<and>
     (\<forall>i < length ms.
           pm_Address (ms ! i) = Some (Address (members ! i)) \<and>
           ProtocolPort (members ! i) = pm_ProtocolPort (ms ! i) \<and>
           Weight (members ! i) = pm_Weight (ms ! i) \<and>
           SubnetID (members ! i) = pm_SubnetID (ms ! i) \<and>
           InstanceID (members ! i) = pm_InstanceID (ms ! i) \<and>
           ID (members ! i) = pm_ID (ms ! i)) \<and>
     (\<forall>d'. resource_Id d' = resource_Id d \<longrightarrow> update_members env d' ms = Returned members)"
proof -
  let ?copy = "\<lambda>pm. \<lparr>Address = (case pm_Address pm of Some ip \<Rightarrow> ip | None \<Rightarrow> None),
                          ProtocolPort = pm_ProtocolPort pm, Weight = pm_Weight pm,
                          SubnetID = pm_SubnetID pm, InstanceID = pm_InstanceID pm,
                          ID = pm_ID pm\<rparr>"
  have pre: "\<And>d'::resource_data. resource_Id d' = resource_Id d
      \<Longrightarrow> \<forall>pm \<in> set ms. pm_ID pm \<noteq> resource_Id d' \<longrightarrow> pm_Address pm \<noteq> None"
    using addr by simp
  have eq: "\<And>d'::resource_data. resource_Id d' = resource_Id d \<Longrightarrow> update_members env d' ms = Returned (map ?copy ms)"
  proof -
    fix d' :: resource_data assume id: "resource_Id d' = resource_Id d"
    have "update_members env d' ms = Returned (map (\<lambda>pm. if pm_ID pm \<noteq> resource_Id d'
                    then ?copy pm
                    else \<lparr>Address = net_ParseIP env (address d'),
                          ProtocolPort = protocol_port d', Weight = weight d',
                          SubnetID = subnet_id d', InstanceID = instance_id d',
                          ID = resource_Id d'\<rparr>) ms)"
      by (rule update_members_result[OF pre[OF id]])
    also have "\<dots> = Returned (map ?copy ms)"
      using noid id by simp
    finally show "update_members env d' ms = Returned (map ?copy ms)" .
  qed
  have somes: "\<And>i. i < length ms \<Longrightarrow> \<exists>ip. pm_Address (ms ! i) = Some ip"
    using addr by (metis nth_mem not_None_eq)
  show ?thesis
  proof (intro exI conjI)
    show "update_members env d ms = Returned (map ?copy ms)" by (rule eq) simp
    show "length (map ?copy ms) = length ms" by simp
    show "\<forall>i < length ms.
           pm_Address (ms ! i) = Some (Address (map ?copy ms ! i)) \<and>
           ProtocolPort (map ?copy ms ! i) = pm_ProtocolPort (ms ! i) \<and>
           Weight (map ?copy ms ! i) = pm_Weight (ms ! i) \<and>
           SubnetID (map ?copy ms ! i) = pm_SubnetID (ms ! i) \<and>
           InstanceID (map ?copy ms ! i) = pm_InstanceID (ms ! i) \<and>
           ID (map ?copy ms ! i) = pm_ID (ms ! i)"
      using somes by fastforce
    show "\<forall>d'. resource_Id d' = resource_Id d \<longrightarrow> update_members env d' ms = Returned (map ?copy ms)"
      using eq by blast
  qed
qed

theorem update_members_without_target_witness:
  "update_members stub_services sample_data [sample_member ''1'' 5, sample_member ''3'' 1] =
   Returned
     [\<lparr>Address = Some [10, 0, 0, 7], ProtocolPort = 8080, Weight = 5, SubnetID = ''s-1'',
       InstanceID = ''i-1'', ID = ''1''\<rparr>,
      \<lparr>Address = Some [10, 0, 0, 7], ProtocolPort = 8080, Weight = 1, SubnetID = ''s-1'',
       InstanceID = ''i-1'', ID = ''3''\<rparr>]
   \<and> update_members stub_services (sample_data\<lparr>weight := 7, address := ''10.0.0.9''\<rparr>)
        [sample_member ''1'' 5, sample_member ''3'' 1] =
       update_members stub_services sample_data [sample_member ''1'' 5, sample_member ''3'' 1]"
proof -
  let ?ms = "[sample_member ''1'' 5, sample_member ''3'' 1]"
  have h1: "\<forall>pm \<in> set ?ms. pm_ID pm \<noteq> resource_Id sample_data"
    by (simp add: sample_member_def sample_data_def)
  have h2: "\<forall>pm \<in> set ?ms. pm_Address pm \<noteq> None"
    by (simp add: sample_member_def)
  obtain members where m: "update_members stub_services sample_data ?ms = Returned members"
    and len: "length members = length ?ms"
    and el: "\<forall>i < length ?ms.
           pm_Address (?ms ! i) = Some (Address (members ! i)) \<and>
           ProtocolPort (members ! i) = pm_ProtocolPort (?ms ! i) \<and>
           Weight (members ! i) = pm_Weight (?ms ! i) \<and>
           SubnetID (members ! i) = pm_SubnetID (?ms ! i) \<and>
           InstanceID (members ! i) = pm_InstanceID (?ms ! i) \<and>
           ID (members ! i) = pm_ID (?ms ! i)"
    and indep: "\<forall>d'. resource_Id d' = resource_Id sample_data
                  \<longrightarrow> update_members stub_services d' ?ms = Returned members"
    using update_members_without_target[OF h1 h2, of stub_services] by blast
  from len obtain a b where ab: "members = [a, b]"
    by (cases members; simp; metis length_0_conv length_Suc_conv)
  have "a = \<lparr>Address = Some [10, 0, 0, 7], ProtocolPort = 8080, Weight = 5, SubnetID = ''s-1'',
       InstanceID = ''i-1'', ID = ''1''\<rparr>"
    using el[rule_format, of 0] ab by (simp add: sample_member_def)
  moreover have "b = \<lparr>Address = Some [10, 0, 0, 7], ProtocolPort = 8080, Weight = 1,
       SubnetID = ''s-1'', InstanceID = ''i-1'', ID = ''3''\<rparr>"
    using el[rule_format, of 1] ab by (simp add: sample_member_def)
  moreover have "update_members stub_services (sample_data\<lparr>weight := 7, address := ''10.0.0.9''\<rparr>) ?ms
                 = Returned members"
    using indep[rule_format, of "sample_data\<lparr>weight := 7, address := ''10.0.0.9''\<rparr>"] by simp
  ultimately show ?thesis using m ab by simp
qed

text \<open>
  The claim as first stated fails: no member has the resource's identity, the only
  member's address pointer is nil, and the loop panics at line 265.
\<close>

theorem update_members_without_target_counterexample:
  "pm_ID ((sample_member ''1'' 5)\<lparr>pm_Address := None\<rparr>) \<noteq> resource_Id sample_data
   \<and> update_members stub_services sample_data [(sample_member ''1'' 5)\<lparr>pm_Address := None\<rparr>] =
       Panicked NilPointerDereference"
  by (simp add: update_members_def sample_member_def sample_data_def)

subsection \<open>Read\<close>

lemma read_members_loop_no_match:
  "mid \<notin> pm_ID ` set ms \<Longrightarrow> read_members_loop env mid ms d = Returned d"
  by (induction ms arbitrary: d) auto

lemma read_members_loop_Id:
  "read_members_loop env mid ms d = Returned d1 \<Longrightarrow> resource_Id d1 = resource_Id d"
proof (induction ms arbitrary: d)
  case Nil
  then show ?case by simp
next
  case (Cons pm pms)
  show ?case
  proof (cases "mid = pm_ID pm")
    case True
    then show ?thesis using Cons.prems Cons.IH
      by (cases "pm_Address pm") fastforce+
  next
    case False
    then show ?thesis using Cons.prems Cons.IH by simp
  qed
qed

lemma read_members_loop_panic_kind:
  "read_members_loop env mid ms d = Panicked p \<Longrightarrow> p = NilPointerDereference"
proof (induction ms arbitrary: d)
  case Nil
  then show ?case by simp
next
  case (Cons pm pms)
  then show ?case
    by (cases "pm_Address pm") (auto split: if_splits)
qed

lemma read_members_loop_match:
  "\<forall>pm \<in> set ms. pm_ID pm = mid \<longrightarrow> pm_Address pm \<noteq> None
   \<Longrightarrow> read_members_loop env mid ms d =
       Returned (case filter (\<lambda>pm. pm_ID pm = mid) ms of
                   [] \<Rightarrow> d
                 | m # rest \<Rightarrow>
                     (let pm = last (m # rest) in
                      d\<lparr>address := IP_String env (case pm_Address pm of Some ip \<Rightarrow> ip | None \<Rightarrow> None),
                        protocol_port := pm_ProtocolPort pm,
                        weight := pm_Weight pm,
                        subnet_id := pm_SubnetID pm,
                        instance_id := pm_InstanceID pm,
                        operating_status := pm_OperatingStatus pm\<rparr>))"
proof (induction ms arbitrary: d)
  case Nil
  then show ?case by simp
next
  case (Cons pm pms)
  have prem: "\<forall>pm \<in> set pms. pm_ID pm = mid \<longrightarrow> pm_Address pm \<noteq> None"
    using Cons.prems by simp
  show ?case
  proof (cases "mid = pm_ID pm")
    case True
    then obtain ip where ip: "pm_Address pm = Some ip" using Cons.prems by auto
    show ?thesis using True ip Cons.IH[OF prem]
      by (simp add: Let_def split: list.splits)
  next
    case False
    then show ?thesis using Cons.IH[OF prem] by auto
  qed
qed

lemma revertState_frame:
  "resource_Id (revertState env d ns) = resource_Id d \<and>
   address (revertState env d ns) = address d \<and>
   protocol_port (revertState env d ns) = protocol_port d \<and>
   weight (revertState env d ns) = weight d \<and>
   subnet_id (revertState env d ns) = subnet_id d \<and>
   instance_id (revertState env d ns) = instance_id d \<and>
   operating_status (revertState env d ns) = operating_status d"
  by (simp add: revertState_def Let_def)

lemma resourceLBMemberRead_Id:
  "resourceLBMemberRead env d w = Returned (diags, d1, w1) \<Longrightarrow> resource_Id d1 = resource_Id d"
  by (auto simp: resourceLBMemberRead_def revertState_frame
      split: prod.splits sum.splits outcome.splits dest: read_members_loop_Id)

lemma resourceLBMemberRead_panic_kind:
  "resourceLBMemberRead env d w = Panicked p \<Longrightarrow> p = NilPointerDereference"
  by (auto simp: resourceLBMemberRead_def
      split: prod.splits sum.splits outcome.splits dest: read_members_loop_panic_kind)

lemma last_filter_props:
  "x \<in> set xs \<Longrightarrow> P x \<Longrightarrow> last (filter P xs) \<in> set xs \<and> P (last (filter P xs))"
proof -
  assume "x \<in> set xs" "P x"
  then have ne: "filter P xs \<noteq> []" by (auto simp: filter_empty_conv)
  then have "last (filter P xs) \<in> set (filter P xs)" by (rule last_in_set)
  then show ?thesis by simp
qed

text \<open>
  C6 (as amended). Take a Read whose client construction and pool fetch succeed. If the
  resource's identity is the identity of no member of the fetched pool, Read returns
  without diagnostics, none of address, port, weight, subnet, instance and operating
  status is changed, and the identity is kept. If it is the identity of some member, and
  every member of that identity has an address (a non-nil pointer), all six fields are
  overwritten from the last member of that identity (the address as its string), and the
  identity is kept.
\<close>

theorem Read_overwrites_only_on_match:
  assumes client: "CreateClient env d w = (Inr client, w0)"
      and pool: "lbpools_Get env client (pool_id d) w0 = (Inr pool, w1)"
      and addr: "\<forall>pm \<in> set (Members pool). pm_ID pm = resource_Id d \<longrightarrow> pm_Address pm \<noteq> None"
  shows "\<exists>d1. resourceLBMemberRead env d w = Returned ([], d1, w1) \<and>
      resource_Id d1 = resource_Id d \<and>
      (resource_Id d \<notin> pm_ID ` set (Members pool) \<longrightarrow>
         address d1 = address d \<and> protocol_port d1 = protocol_port d \<and>
         weight d1 = weight d \<and> subnet_id d1 = subnet_id d \<and>
         instance_id d1 = instance_id d \<and> operating_status d1 = operating_status d) \<and>
      (resource_Id d \<in> pm_ID ` set (Members pool) \<longrightarrow>
         (\<exists>pm ip. pm = last (filter (\<lambda>pm. pm_ID pm = resource_Id d) (Members pool)) \<and>
            pm \<in> set (Members pool) \<and> pm_ID pm = resource_Id d \<and>
            pm_Address pm = Some ip \<and>
            address d1 = IP_String env ip \<and> protocol_port d1 = pm_ProtocolPort pm \<and>
            weight d1 = pm_Weight pm \<and> subnet_id d1 = pm_SubnetID pm \<and>
            instance_id d1 = pm_InstanceID pm \<and>
            operating_status d1 = pm_OperatingStatus pm))"
proof -
  let ?ms = "Members pool"
  let ?mid = "resource_Id d"
  let ?hit = "filter (\<lambda>pm. pm_ID pm = ?mid) ?ms"
  obtain d0 where loop: "read_members_loop env ?mid ?ms d = Returned d0"
    and d0: "d0 = (case ?hit of
                   [] \<Rightarrow> d
                 | m # rest \<Rightarrow>
                     (let pm = last (m # rest) in
                      d\<lparr>address := IP_String env (case pm_Address pm of Some ip \<Rightarrow> ip | None \<Rightarrow> None),
                        protocol_port := pm_ProtocolPort pm,
                        weight := pm_Weight pm,
                        subnet_id := pm_SubnetID pm,
                        instance_id := pm_InstanceID pm,
                        operating_status := pm_OperatingStatus pm\<rparr>))"
    using read_members_loop_match[OF addr, of env d] by simp
  let ?d1 = "revertState env d0 [''project_id'', ''region_id'']"
  have res: "resourceLBMemberRead env d w = Returned ([], ?d1, w1)"
    by (simp add: resourceLBMemberRead_def client pool loop)
  have idp: "resource_Id ?d1 = resource_Id d"
    using read_members_loop_Id[OF loop] by (simp add: revertState_frame)
  have nomatch: "resource_Id d \<notin> pm_ID ` set ?ms \<Longrightarrow> d0 = d"
  proof -
    assume "resource_Id d \<notin> pm_ID ` set ?ms"
    then have "\<forall>x \<in> set ?ms. pm_ID x \<noteq> ?mid" by force
    then have "?hit = []" by (simp add: filter_empty_conv)
    then show "d0 = d" using d0 by simp
  qed
  have match: "resource_Id d \<in> pm_ID ` set ?ms \<Longrightarrow>
         (\<exists>pm ip. pm = last ?hit \<and> pm \<in> set ?ms \<and> pm_ID pm = resource_Id d \<and>
            pm_Address pm = Some ip \<and>
            address d0 = IP_String env ip \<and> protocol_port d0 = pm_ProtocolPort pm \<and>
            weight d0 = pm_Weight pm \<and> subnet_id d0 = pm_SubnetID pm \<and>
            instance_id d0 = pm_InstanceID pm \<and>
            operating_status d0 = pm_OperatingStatus pm)"
  proof -
    assume "resource_Id d \<in> pm_ID ` set ?ms"
    then obtain x where x: "x \<in> set ?ms" "pm_ID x = ?mid" by auto
    have lp: "last ?hit \<in> set ?ms \<and> pm_ID (last ?hit) = ?mid"
      using last_filter_props[of x ?ms "\<lambda>pm. pm_ID pm = ?mid"] x by simp
    then obtain ip where ip: "pm_Address (last ?hit) = Some ip" using addr by auto
    have ne: "?hit \<noteq> []" using x by (auto simp: filter_empty_conv)
    then obtain m rest where mr: "?hit = m # rest" by (cases ?hit) auto
    have "d0 = d\<lparr>address := IP_String env ip,
                        protocol_port := pm_ProtocolPort (last ?hit),
                        weight := pm_Weight (last ?hit),
                        subnet_id := pm_SubnetID (last ?hit),
                        instance_id := pm_InstanceID (last ?hit),
                        operating_status := pm_OperatingStatus (last ?hit)\<rparr>"
      using d0 ip unfolding mr[symmetric] by (simp add: mr Let_def)
    then show ?thesis using lp ip by simp
  qed
  show ?thesis
    using res idp nomatch match by (simp add: revertState_frame)
qed

theorem Read_overwrites_only_on_match_witness:
  "(\<exists>d1. resourceLBMemberRead
           (scripted_services (\<lambda>w. TaskSucceeded) (\<lambda>w. [sample_member ''2'' 9, sample_member ''3'' 1]))
           sample_data 0 = Returned ([], d1, 1) \<and>
         resource_Id d1 = ''2'' \<and> address d1 = ''10.0.0.7'' \<and> protocol_port d1 = 8080 \<and>
         weight d1 = 9 \<and> subnet_id d1 = ''s-1'' \<and> instance_id d1 = ''i-1'' \<and>
         operating_status d1 = ''ONLINE'')
   \<and> (\<exists>d1. resourceLBMemberRead
           (scripted_services (\<lambda>w. TaskSucceeded) (\<lambda>w. [sample_member ''1'' 5, sample_member ''3'' 1]))
           sample_data 0 = Returned ([], d1, 1) \<and>
         resource_Id d1 = ''2'' \<and> address d1 = ''10.0.0.7'' \<and> protocol_port d1 = 80 \<and>
         weight d1 = 42 \<and> subnet_id d1 = ''s-2'' \<and> instance_id d1 = ''i-2'' \<and>
         operating_status d1 = [])"
proof (rule conjI)
  let ?ms = "[sample_member ''2'' 9, sample_member ''3'' 1]"
  let ?env = "scripted_services (\<lambda>w. TaskSucceeded) (\<lambda>w. ?ms)"
  let ?pool = "\<lparr>pool_ID = ''p-7'', pool_Name = ''pool'', Members = ?ms\<rparr>"
  have c: "CreateClient ?env sample_data 0 = (Inr (), 0)"
    by (simp add: scripted_services_def)
  have g: "lbpools_Get ?env () (pool_id sample_data) 0 = (Inr ?pool, 1)"
    by (simp add: scripted_services_def sample_data_def)
  have a: "\<forall>pm \<in> set (Members ?pool). pm_ID pm = resource_Id sample_data \<longrightarrow> pm_Address pm \<noteq> None"
    by (simp add: sample_member_def)
  have ip: "IP_String ?env (Some [10, 0, 0, 7]) = ''10.0.0.7''"
    by (simp add: scripted_services_def)
  show "\<exists>d1. resourceLBMemberRead ?env sample_data 0 = Returned ([], d1, 1) \<and>
         resource_Id d1 = ''2'' \<and> address d1 = ''10.0.0.7'' \<and> protocol_port d1 = 8080 \<and>
         weight d1 = 9 \<and> subnet_id d1 = ''s-1'' \<and> instance_id d1 = ''i-1'' \<and>
         operating_status d1 = ''ONLINE''"
    using Read_overwrites_only_on_match[OF c g a] ip
    by (auto simp: sample_member_def sample_data_def)
next
  let ?ms = "[sample_member ''1'' 5, sample_member ''3'' 1]"
  let ?env = "scripted_services (\<lambda>w. TaskSucceeded) (\<lambda>w. ?ms)"
  let ?pool = "\<lparr>pool_ID = ''p-7'', pool_Name = ''pool'', Members = ?ms\<rparr>"
  have c: "CreateClient ?env sample_data 0 = (Inr (), 0)"
    by (simp add: scripted_services_def)
  have g: "lbpools_Get ?env () (pool_id sample_data) 0 = (Inr ?pool, 1)"
    by (simp add: scripted_services_def sample_data_def)
  have a: "\<forall>pm \<in> set (Members ?pool). pm_ID pm = resource_Id sample_data \<longrightarrow> pm_Address pm \<noteq> None"
    by (simp add: sample_member_def)
  show "\<exists>d1. resourceLBMemberRead ?env sample_data 0 = Returned ([], d1, 1) \<and>
         resource_Id d1 = ''2'' \<and> address d1 = ''10.0.0.7'' \<and> protocol_port d1 = 80 \<and>
         weight d1 = 42 \<and> subnet_id d1 = ''s-2'' \<and> instance_id d1 = ''i-2'' \<and>
         operating_status d1 = []"
    using Read_overwrites_only_on_match[OF c g a]
    by (auto simp: sample_member_def sample_data_def)
qed

text \<open>
  The claim as first stated fails when a match exists: the matching member's address
  pointer is nil, and line 230 panics instead of overwriting the fields.
\<close>

theorem Read_nil_address_counterexample:
  "resource_Id sample_data \<in> pm_ID ` set [(sample_member ''2'' 9)\<lparr>pm_Address := None\<rparr>]
   \<and> resourceLBMemberRead
       (scripted_services (\<lambda>w. TaskSucceeded) (\<lambda>w. [(sample_member ''2'' 9)\<lparr>pm_Address := None\<rparr>]))
       sample_data 0 = Panicked NilPointerDereference"
  by (simp add: resourceLBMemberRead_def scripted_services_def sample_member_def sample_data_def)

subsection \<open>Delete\<close>

text \<open>
  C2. In Delete, once the client is built: if the remove-member call returns an error of
  type \<open>ErrDefault404\<close> (not found), Delete returns no diagnostic and the identity is set
  to the empty string; if it returns any other error, Delete returns that error as an
  Error diagnostic and leaves the resource data, the identity included, as it was.
\<close>

theorem Delete_not_found_clears_identity:
  assumes client: "CreateClient env d w = (Inr client, w0)"
      and del: "lbpools_DeleteMember env client (pool_id d) (resource_Id d)
                  (conflict_RequestOpts env (Timeout_Delete d)) w0 = (Inl err, w1)"
  shows "resourceLBMemberDelete env d w =
           (case err of
              ErrDefault404 s \<Rightarrow> Returned ([], d\<lparr>resource_Id := []\<rparr>, w1)
            | _ \<Rightarrow> Returned (FromErr err, d, w1))
         \<and> FromErr err \<noteq> []"
  by (simp add: resourceLBMemberDelete_def client del FromErr_def split: error.splits)

theorem Delete_not_found_clears_identity_witness:
  "resourceLBMemberDelete (delete_error_services (ErrDefault404 ''not found'')) sample_data 0 =
     Returned ([], sample_data\<lparr>resource_Id := []\<rparr>, 1)
   \<and> resourceLBMemberDelete (delete_error_services (ErrOther ''bad gateway'')) sample_data 0 =
     Returned ([\<lparr>Severity = Error, Summary = ''bad gateway'', Detail = []\<rparr>], sample_data, 1)"
proof (rule conjI)
  let ?env = "delete_error_services (ErrDefault404 ''not found'')"
  have c: "CreateClient ?env sample_data 0 = (Inr (), 0)"
    by (simp add: delete_error_services_def stub_services_def scripted_services_def)
  have e: "lbpools_DeleteMember ?env () (pool_id sample_data) (resource_Id sample_data)
             (conflict_RequestOpts ?env (Timeout_Delete sample_data)) 0
           = (Inl (ErrDefault404 ''not found''), 1)"
    by (simp add: delete_error_services_def)
  show "resourceLBMemberDelete ?env sample_data 0 = Returned ([], sample_data\<lparr>resource_Id := []\<rparr>, 1)"
    using Delete_not_found_clears_identity[OF c e] by simp
next
  let ?env = "delete_error_services (ErrOther ''bad gateway'')"
  have c: "CreateClient ?env sample_data 0 = (Inr (), 0)"
    by (simp add: delete_error_services_def stub_services_def scripted_services_def)
  have e: "lbpools_DeleteMember ?env () (pool_id sample_data) (resource_Id sample_data)
             (conflict_RequestOpts ?env (Timeout_Delete sample_data)) 0
           = (Inl (ErrOther ''bad gateway''), 1)"
    by (simp add: delete_error_services_def)
  show "resourceLBMemberDelete ?env sample_data 0 =
     Returned ([\<lparr>Severity = Error, Summary = ''bad gateway'', Detail = []\<rparr>], sample_data, 1)"
    using Delete_not_found_clears_identity[OF c e] by (simp add: FromErr_def)
qed

subsection \<open>The first task of a response\<close>

text \<open>
  C10. In Create, Update and Delete, after the mutating call has succeeded, the task list
  of the response is indexed at position 0 without a check: the operation panics with
  index 0 out of range for length 0 exactly when the task list is empty, so the access is
  in bounds only if the response holds at least one task.
\<close>

theorem first_task_index_in_bounds_iff_nonempty:
  "(CreateClient env d w = (Inr client, w0) \<and>
    lbpools_CreateMember env client (pool_id d)
      \<lparr>Address = net_ParseIP env (address d), ProtocolPort = protocol_port d,
       Weight = weight d, SubnetID = subnet_id d, InstanceID = instance_id d, ID = []\<rparr>
      (conflict_RequestOpts env (Timeout_Create d)) w0 = (Inr results, w1)
    \<longrightarrow> (resourceLBMemberCreate env d w = Panicked (IndexOutOfRange 0 0)) = (Tasks results = []))
   \<and> (CreateClient env d w = (Inr client, w0) \<and>
      lbpools_Get env client (pool_id d) w0 = (Inr pool, wp) \<and>
      update_members env d (Members pool) = Returned members \<and>
      lbpools_Update env client (pool_ID pool)
        \<lparr>upd_Name = pool_Name pool, upd_Members = members\<rparr>
        (conflict_RequestOpts env (Timeout_Update d)) wp = (Inr results, w1)
    \<longrightarrow> (resourceLBMemberUpdate env d w = Panicked (IndexOutOfRange 0 0)) = (Tasks results = []))
   \<and> (CreateClient env d w = (Inr client, w0) \<and>
      lbpools_DeleteMember env client (pool_id d) (resource_Id d)
        (conflict_RequestOpts env (Timeout_Delete d)) w0 = (Inr results, w1)
    \<longrightarrow> (resourceLBMemberDelete env d w = Panicked (IndexOutOfRange 0 0)) = (Tasks results = []))"
proof (intro conjI impI)
  assume "CreateClient env d w = (Inr client, w0) \<and>
    lbpools_CreateMember env client (pool_id d)
      \<lparr>Address = net_ParseIP env (address d), ProtocolPort = protocol_port d,
       Weight = weight d, SubnetID = subnet_id d, InstanceID = instance_id d, ID = []\<rparr>
      (conflict_RequestOpts env (Timeout_Create d)) w0 = (Inr results, w1)"
  then show "(resourceLBMemberCreate env d w = Panicked (IndexOutOfRange 0 0)) = (Tasks results = [])"
    by (auto simp: resourceLBMemberCreate_def Let_def
        split: list.splits prod.splits sum.splits outcome.splits
        dest: resourceLBMemberRead_panic_kind)
next
  assume "CreateClient env d w = (Inr client, w0) \<and>
      lbpools_Get env client (pool_id d) w0 = (Inr pool, wp) \<and>
      update_members env d (Members pool) = Returned members \<and>
      lbpools_Update env client (pool_ID pool)
        \<lparr>upd_Name = pool_Name pool, upd_Members = members\<rparr>
        (conflict_RequestOpts env (Timeout_Update d)) wp = (Inr results, w1)"
  then show "(resourceLBMemberUpdate env d w = Panicked (IndexOutOfRange 0 0)) = (Tasks results = [])"
    by (auto simp: resourceLBMemberUpdate_def Let_def
        split: list.splits prod.splits sum.splits outcome.splits
        dest: resourceLBMemberRead_panic_kind)
next
  assume "CreateClient env d w = (Inr client, w0) \<and>
      lbpools_DeleteMember env client (pool_id d) (resource_Id d)
        (conflict_RequestOpts env (Timeout_Delete d)) w0 = (Inr results, w1)"
  then show "(resourceLBMemberDelete env d w = Panicked (IndexOutOfRange 0 0)) = (Tasks results = [])"
    by (auto simp: resourceLBMemberDelete_def Let_def
        split: list.splits prod.splits sum.splits outcome.splits)
qed

theorem first_task_index_in_bounds_iff_nonempty_witness:
  "resourceLBMemberCreate no_task_services sample_data 0 = Panicked (IndexOutOfRange 0 0)
   \<and> resourceLBMemberUpdate no_task_services sample_data 0 = Panicked (IndexOutOfRange 0 0)
   \<and> resourceLBMemberDelete no_task_services sample_data 0 = Panicked (IndexOutOfRange 0 0)
   \<and> resourceLBMemberCreate stub_services sample_data 0 \<noteq> Panicked (IndexOutOfRange 0 0)
   \<and> resourceLBMemberUpdate stub_services sample_data 0 \<noteq> Panicked (IndexOutOfRange 0 0)
   \<and> resourceLBMemberDelete stub_services sample_data 0 \<noteq> Panicked (IndexOutOfRange 0 0)"
proof -
  let ?opts = "\<lambda>env. \<lparr>Address = net_ParseIP env (address sample_data),
       ProtocolPort = protocol_port sample_data, Weight = weight sample_data,
       SubnetID = subnet_id sample_data, InstanceID = instance_id sample_data, ID = []\<rparr>"
  let ?pool = "\<lparr>pool_ID = ''p-7'', pool_Name = ''pool'', Members = []\<rparr>"
  let ?upd = "\<lparr>upd_Name = pool_Name ?pool, upd_Members = []\<rparr>"
  have c0: "CreateClient no_task_services sample_data 0 = (Inr (), 0)"
    by (simp add: no_task_services_def stub_services_def scripted_services_def)
  have m0: "lbpools_CreateMember no_task_services () (pool_id sample_data) (?opts no_task_services)
              (conflict_RequestOpts no_task_services (Timeout_Create sample_data)) 0
            = (Inr \<lparr>Tasks = []\<rparr>, 1)"
    by (simp add: no_task_services_def)
  have g0: "lbpools_Get no_task_services () (pool_id sample_data) 0 = (Inr ?pool, 1)"
    by (simp add: no_task_services_def stub_services_def scripted_services_def sample_data_def)
  have r0: "update_members no_task_services sample_data (Members ?pool) = Returned []"
    by (simp add: update_members_def)
  have u0: "lbpools_Update no_task_services () (pool_ID ?pool) ?upd
              (conflict_RequestOpts no_task_services (Timeout_Update sample_data)) 1
            = (Inr \<lparr>Tasks = []\<rparr>, 2)"
    by (simp add: no_task_services_def)
  have d0: "lbpools_DeleteMember no_task_services () (pool_id sample_data) (resource_Id sample_data)
              (conflict_RequestOpts no_task_services (Timeout_Delete sample_data)) 0
            = (Inr \<lparr>Tasks = []\<rparr>, 1)"
    by (simp add: no_task_services_def)
  have c1: "CreateClient stub_services sample_data 0 = (Inr (), 0)"
    by (simp add: stub_services_def scripted_services_def)
  have m1: "lbpools_CreateMember stub_services () (pool_id sample_data) (?opts stub_services)
              (conflict_RequestOpts stub_services (Timeout_Create sample_data)) 0
            = (Inr \<lparr>Tasks = [''t-1'']\<rparr>, 1)"
    by (simp add: stub_services_def scripted_services_def)
  have g1: "lbpools_Get stub_services () (pool_id sample_data) 0 = (Inr ?pool, 1)"
    by (simp add: stub_services_def scripted_services_def sample_data_def)
  have r1: "update_members stub_services sample_data (Members ?pool) = Returned []"
    by (simp add: update_members_def)
  have u1: "lbpools_Update stub_services () (pool_ID ?pool) ?upd
              (conflict_RequestOpts stub_services (Timeout_Update sample_data)) 1
            = (Inr \<lparr>Tasks = [''t-1'']\<rparr>, 2)"
    by (simp add: stub_services_def scripted_services_def)
  have d1: "lbpools_DeleteMember stub_services () (pool_id sample_data) (resource_Id sample_data)
              (conflict_RequestOpts stub_services (Timeout_Delete sample_data)) 0
            = (Inr \<lparr>Tasks = [''t-1'']\<rparr>, 1)"
    by (simp add: stub_services_def scripted_services_def)
  note empty = first_task_index_in_bounds_iff_nonempty
                 [where env = no_task_services and d = sample_data and w = 0 and client = "()"
                    and ?w0.0 = 0 and results = "\<lparr>Tasks = []\<rparr>" and pool = ?pool
                    and members = "[]"]
  note full = first_task_index_in_bounds_iff_nonempty
                 [where env = stub_services and d = sample_data and w = 0 and client = "()"
                    and ?w0.0 = 0 and results = "\<lparr>Tasks = [''t-1'']\<rparr>" and pool = ?pool
                    and members = "[]"]
  have "resourceLBMemberCreate no_task_services sample_data 0 = Panicked (IndexOutOfRange 0 0)"
    using empty[where ?w1.0 = 1] c0 m0 by simp
  moreover have "resourceLBMemberUpdate no_task_services sample_data 0 = Panicked (IndexOutOfRange 0 0)"
    using empty[where wp = 1 and ?w1.0 = 2] c0 g0 r0 u0 by simp
  moreover have "resourceLBMemberDelete no_task_services sample_data 0 = Panicked (IndexOutOfRange 0 0)"
    using empty[where ?w1.0 = 1] c0 d0 by simp
  moreover have "resourceLBMemberCreate stub_services sample_data 0 \<noteq> Panicked (IndexOutOfRange 0 0)"
    using full[where ?w1.0 = 1] c1 m1 by simp
  moreover have "resourceLBMemberUpdate stub_services sample_data 0 \<noteq> Panicked (IndexOutOfRange 0 0)"
    using full[where wp = 1 and ?w1.0 = 2] c1 g1 r1 u1 by simp
  moreover have "resourceLBMemberDelete stub_services sample_data 0 \<noteq> Panicked (IndexOutOfRange 0 0)"
    using full[where ?w1.0 = 1] c1 d1 by simp
  ultimately show ?thesis by blast
qed

subsection \<open>The task poller\<close>

lemma WaitForTask_in_progress:
  "in_progress_polls env client task k w = Some w1
   \<Longrightarrow> WaitForTask (k + n) env client task retriever w = WaitForTask n env client task retriever w1"
proof (induction k arbitrary: w)
  case 0
  then show ?case by simp
next
  case (Suc k)
  then show ?case
    by (auto split: prod.splits sum.splits if_splits)
qed

lemma WaitForTask_success_from_retriever:
  "WaitForTask n env client task retriever w = (Inr r, w2)
   \<Longrightarrow> \<exists>w1. retriever task w1 = (Inr r, w2)"
proof (induction n arbitrary: w)
  case 0
  then show ?case by simp
next
  case (Suc n)
  then show ?case
    by (auto split: prod.splits sum.splits TaskState.splits)
qed

lemma WaitTask_succeeded_after_polls:
  assumes polls: "in_progress_polls env client taskID k w1 = Some w2"
      and budget: "k < poll_attempts env seconds"
      and get: "tasks_Get env client taskID w2 = (Inr info, w3)"
      and succ: "task_State info = TaskSucceeded"
  shows "WaitTaskAndReturnResult env client taskID b seconds retriever w1 = retriever taskID w3"
proof -
  obtain m where m: "poll_attempts env seconds = k + Suc m"
    using less_imp_Suc_add[OF budget] by auto
  have "WaitForTask (k + Suc m) env client taskID retriever w1
        = WaitForTask (Suc m) env client taskID retriever w2"
    using polls by (rule WaitForTask_in_progress)
  also have "\<dots> = retriever taskID w3"
    by (simp add: get succ)
  finally show ?thesis
    unfolding WaitTaskAndReturnResult_def m .
qed

lemma WaitTask_timeout_after_polls:
  assumes polls: "in_progress_polls env client taskID (poll_attempts env seconds) w1 = Some w2"
  shows "WaitTaskAndReturnResult env client taskID b seconds retriever w1 =
           (Inl (ErrTimeout (''timeout waiting for task '' @ taskID)), w2)"
proof -
  have "WaitForTask (poll_attempts env seconds + 0) env client taskID retriever w1
        = WaitForTask 0 env client taskID retriever w2"
    using polls by (rule WaitForTask_in_progress)
  then show ?thesis
    by (simp add: WaitTaskAndReturnResult_def)
qed

lemma FromErr_not_Nil: "FromErr err \<noteq> []"
  by (simp add: FromErr_def)

subsection \<open>Create\<close>

text \<open>
  C4. In every execution of Create: if the client construction fails, or the creation
  request fails, or the task poller returns an error, Create returns that error as a
  diagnostic and leaves the resource data as it was, so no identity is assigned. The
  extraction returns an error when the task cannot be fetched and when the member
  identity cannot be read from it, and the poller returns the error of the extraction it
  invokes. Whenever Create returns, either it returns a diagnostic and the resource data
  is unchanged, or it returns none and the identity of the resource is the member
  identity that the poller returned from the extraction.
\<close>

theorem Create_assigns_identity_only_after_poller:
  "(\<forall>err w0. CreateClient env d w = (Inl err, w0)
      \<longrightarrow> resourceLBMemberCreate env d w = Returned (FromErr err, d, w0))
   \<and> (\<forall>client w0 err w1.
        CreateClient env d w = (Inr client, w0) \<and>
        lbpools_CreateMember env client (pool_id d)
          \<lparr>Address = net_ParseIP env (address d), ProtocolPort = protocol_port d,
           Weight = weight d, SubnetID = subnet_id d, InstanceID = instance_id d, ID = []\<rparr>
          (conflict_RequestOpts env (Timeout_Create d)) w0 = (Inl err, w1)
      \<longrightarrow> resourceLBMemberCreate env d w = Returned (FromErr err, d, w1))
   \<and> (\<forall>client w0 results w1 taskID rest err w2.
        CreateClient env d w = (Inr client, w0) \<and>
        lbpools_CreateMember env client (pool_id d)
          \<lparr>Address = net_ParseIP env (address d), ProtocolPort = protocol_port d,
           Weight = weight d, SubnetID = subnet_id d, InstanceID = instance_id d, ID = []\<rparr>
          (conflict_RequestOpts env (Timeout_Create d)) w0 = (Inr results, w1) \<and>
        Tasks results = taskID # rest \<and>
        WaitTaskAndReturnResult env client taskID True (Timeout_Create d)
          (create_retriever env client) w1 = (Inl err, w2)
      \<longrightarrow> resourceLBMemberCreate env d w = Returned (FromErr err, d, w2))
   \<and> (\<forall>client task wa err wb.
        tasks_Get env client task wa = (Inl err, wb)
      \<longrightarrow> (\<exists>e. create_retriever env client task wa = (Inl e, wb)))
   \<and> (\<forall>client task wa info wb err.
        tasks_Get env client task wa = (Inr info, wb) \<and>
        lbpools_ExtractPoolMemberIDFromTask env info = Inl err
      \<longrightarrow> (\<exists>e. create_retriever env client task wa = (Inl e, wb)))
   \<and> (\<forall>client taskID k w1 wa info wb e wc.
        in_progress_polls env client taskID k w1 = Some wa \<and>
        k < poll_attempts env (Timeout_Create d) \<and>
        tasks_Get env client taskID wa = (Inr info, wb) \<and> task_State info = TaskSucceeded \<and>
        create_retriever env client taskID wb = (Inl e, wc)
      \<longrightarrow> WaitTaskAndReturnResult env client taskID True (Timeout_Create d)
            (create_retriever env client) w1 = (Inl e, wc))
   \<and> (\<forall>diags d1 wz.
        resourceLBMemberCreate env d w = Returned (diags, d1, wz)
      \<longrightarrow> (diags \<noteq> [] \<and> d1 = d) \<or>
          (diags = [] \<and>
           (\<exists>client w0 results w1 taskID rest w2 wr.
              CreateClient env d w = (Inr client, w0) \<and>
              lbpools_CreateMember env client (pool_id d)
                \<lparr>Address = net_ParseIP env (address d), ProtocolPort = protocol_port d,
                 Weight = weight d, SubnetID = subnet_id d, InstanceID = instance_id d, ID = []\<rparr>
                (conflict_RequestOpts env (Timeout_Create d)) w0 = (Inr results, w1) \<and>
              Tasks results = taskID # rest \<and>
              WaitTaskAndReturnResult env client taskID True (Timeout_Create d)
                (create_retriever env client) w1 = (Inr (resource_Id d1), w2) \<and>
              create_retriever env client taskID wr = (Inr (resource_Id d1), w2))))"
proof (intro conjI allI impI)
  fix err w0
  assume "CreateClient env d w = (Inl err, w0)"
  then show "resourceLBMemberCreate env d w = Returned (FromErr err, d, w0)"
    by (simp add: resourceLBMemberCreate_def)
next
  fix client w0 err w1
  assume "CreateClient env d w = (Inr client, w0) \<and>
        lbpools_CreateMember env client (pool_id d)
          \<lparr>Address = net_ParseIP env (address d), ProtocolPort = protocol_port d,
           Weight = weight d, SubnetID = subnet_id d, InstanceID = instance_id d, ID = []\<rparr>
          (conflict_RequestOpts env (Timeout_Create d)) w0 = (Inl err, w1)"
  then show "resourceLBMemberCreate env d w = Returned (FromErr err, d, w1)"
    by (simp add: resourceLBMemberCreate_def Let_def)
next
  fix client w0 results w1 taskID rest err w2
  assume "CreateClient env d w = (Inr client, w0) \<and>
        lbpools_CreateMember env client (pool_id d)
          \<lparr>Address = net_ParseIP env (address d), ProtocolPort = protocol_port d,
           Weight = weight d, SubnetID = subnet_id d, InstanceID = instance_id d, ID = []\<rparr>
          (conflict_RequestOpts env (Timeout_Create d)) w0 = (Inr results, w1) \<and>
        Tasks results = taskID # rest \<and>
        WaitTaskAndReturnResult env client taskID True (Timeout_Create d)
          (create_retriever env client) w1 = (Inl err, w2)"
  then show "resourceLBMemberCreate env d w = Returned (FromErr err, d, w2)"
    by (simp add: resourceLBMemberCreate_def Let_def)
next
  fix client task wa err wb
  assume "tasks_Get env client task wa = (Inl err, wb)"
  then show "\<exists>e. create_retriever env client task wa = (Inl e, wb)"
    by (simp add: create_retriever_def)
next
  fix client task wa info wb err
  assume "tasks_Get env client task wa = (Inr info, wb) \<and>
        lbpools_ExtractPoolMemberIDFromTask env info = Inl err"
  then show "\<exists>e. create_retriever env client task wa = (Inl e, wb)"
    by (simp add: create_retriever_def)
next
  fix client taskID k w1 wa info wb e wc
  assume a: "in_progress_polls env client taskID k w1 = Some wa \<and>
        k < poll_attempts env (Timeout_Create d) \<and>
        tasks_Get env client taskID wa = (Inr info, wb) \<and> task_State info = TaskSucceeded \<and>
        create_retriever env client taskID wb = (Inl e, wc)"
  have "WaitTaskAndReturnResult env client taskID True (Timeout_Create d)
            (create_retriever env client) w1 = create_retriever env client taskID wb"
    using a
    by (intro WaitTask_succeeded_after_polls[where k = k and ?w2.0 = wa and info = info])
       simp_all
  then show "WaitTaskAndReturnResult env client taskID True (Timeout_Create d)
            (create_retriever env client) w1 = (Inl e, wc)"
    using a by simp
next
  fix diags d1 wz
  assume ret: "resourceLBMemberCreate env d w = Returned (diags, d1, wz)"
  show "(diags \<noteq> [] \<and> d1 = d) \<or>
          (diags = [] \<and>
           (\<exists>client w0 results w1 taskID rest w2 wr.
              CreateClient env d w = (Inr client, w0) \<and>
              lbpools_CreateMember env client (pool_id d)
                \<lparr>Address = net_ParseIP env (address d), ProtocolPort = protocol_port d,
                 Weight = weight d, SubnetID = subnet_id d, InstanceID = instance_id d, ID = []\<rparr>
                (conflict_RequestOpts env (Timeout_Create d)) w0 = (Inr results, w1) \<and>
              Tasks results = taskID # rest \<and>
              WaitTaskAndReturnResult env client taskID True (Timeout_Create d)
                (create_retriever env client) w1 = (Inr (resource_Id d1), w2) \<and>
              create_retriever env client taskID wr = (Inr (resource_Id d1), w2)))"
  proof (cases "CreateClient env d w")
    case (Pair rc w0)
    show ?thesis
    proof (cases rc)
      case (Inl err)
      then show ?thesis using ret Pair
        by (auto simp: resourceLBMemberCreate_def FromErr_not_Nil)
    next
      case (Inr client)
      let ?opts = "\<lparr>Address = net_ParseIP env (address d), ProtocolPort = protocol_port d,
                 Weight = weight d, SubnetID = subnet_id d, InstanceID = instance_id d, ID = []\<rparr>"
      obtain rm w1 where cm: "lbpools_CreateMember env client (pool_id d) ?opts
                (conflict_RequestOpts env (Timeout_Create d)) w0 = (rm, w1)"
        by (cases "lbpools_CreateMember env client (pool_id d) ?opts
                (conflict_RequestOpts env (Timeout_Create d)) w0") auto
      show ?thesis
      proof (cases rm)
        case (Inl err)
        then show ?thesis using ret Pair Inr cm
          by (auto simp: resourceLBMemberCreate_def Let_def FromErr_not_Nil)
      next
        case results: (Inr results)
        show ?thesis
        proof (cases "Tasks results")
          case Nil
          then show ?thesis using ret Pair Inr cm results
            by (simp add: resourceLBMemberCreate_def Let_def)
        next
          case (Cons taskID rest)
          obtain rp w2 where wt: "WaitTaskAndReturnResult env client taskID True (Timeout_Create d)
                (create_retriever env client) w1 = (rp, w2)"
            by (cases "WaitTaskAndReturnResult env client taskID True (Timeout_Create d)
                (create_retriever env client) w1") auto
          show ?thesis
          proof (cases rp)
            case (Inl err)
            then show ?thesis using ret Pair Inr cm results Cons wt
              by (auto simp: resourceLBMemberCreate_def Let_def FromErr_not_Nil)
          next
            case pm: (Inr pmID)
            have rd: "\<exists>dr. resourceLBMemberRead env (d\<lparr>resource_Id := pmID\<rparr>) w2
                        = Returned (dr, d1, wz) \<and> diags = []"
              using ret Pair Inr cm results Cons wt pm
              by (auto simp: resourceLBMemberCreate_def Let_def split: outcome.splits)
            then have id1: "resource_Id d1 = pmID"
              using resourceLBMemberRead_Id by fastforce
            have "WaitForTask (poll_attempts env (Timeout_Create d)) env client taskID
                    (create_retriever env client) w1 = (Inr pmID, w2)"
              using wt pm by (simp add: WaitTaskAndReturnResult_def)
            then obtain wr where "create_retriever env client taskID wr = (Inr pmID, w2)"
              using WaitForTask_success_from_retriever by fastforce
            then show ?thesis using rd id1 Pair Inr cm results Cons wt pm by auto
          qed
        qed
      qed
    qed
  qed
qed

theorem Create_assigns_identity_only_after_poller_witness:
  "resourceLBMemberCreate stub_services sample_data 0 =
     Returned ([], sample_data\<lparr>resource_Id := ''m-100''\<rparr>, 4)
   \<and> resourceLBMemberCreate
       (stub_services\<lparr>lbpools_ExtractPoolMemberIDFromTask := (\<lambda>info. Inl (ErrOther ''no member id''))\<rparr>)
       sample_data 0 =
     Returned ([\<lparr>Severity = Error,
                 Summary = ''cannot retrieve LBMember ID from task info: no member id'',
                 Detail = []\<rparr>], sample_data, 3)
   \<and> resourceLBMemberCreate (scripted_services (\<lambda>w. TaskInProgress) (\<lambda>w. [])) sample_data 0 =
     Returned ([\<lparr>Severity = Error, Summary = ''timeout waiting for task t-1'', Detail = []\<rparr>],
               sample_data, 4)"
proof (intro conjI)
  show "resourceLBMemberCreate stub_services sample_data 0 =
     Returned ([], sample_data\<lparr>resource_Id := ''m-100''\<rparr>, 4)"
    by (simp add: resourceLBMemberCreate_def resourceLBMemberRead_def WaitTaskAndReturnResult_def
        create_retriever_def conflict_RequestOpts_def revertState_def stub_services_def
        scripted_services_def sample_data_def eval_nat_numeral Let_def)
next
  let ?env = "stub_services\<lparr>lbpools_ExtractPoolMemberIDFromTask := (\<lambda>info. Inl (ErrOther ''no member id''))\<rparr>"
  let ?opts = "\<lparr>Address = net_ParseIP ?env (address sample_data),
       ProtocolPort = protocol_port sample_data, Weight = weight sample_data,
       SubnetID = subnet_id sample_data, InstanceID = instance_id sample_data, ID = []\<rparr>"
  have c: "CreateClient ?env sample_data 0 = (Inr (), 0)"
    by (simp add: stub_services_def scripted_services_def)
  have m: "lbpools_CreateMember ?env () (pool_id sample_data) ?opts
             (conflict_RequestOpts ?env (Timeout_Create sample_data)) 0
           = (Inr \<lparr>Tasks = [''t-1'']\<rparr>, 1)"
    by (simp add: stub_services_def scripted_services_def)
  have t: "Tasks \<lparr>Tasks = [''t-1'']\<rparr> = ''t-1'' # []" by simp
  have p: "WaitTaskAndReturnResult ?env () ''t-1'' True (Timeout_Create sample_data)
             (create_retriever ?env ()) 1
           = (Inl (ErrFmt ''cannot retrieve LBMember ID from task info: no member id''), 3)"
    by (simp add: WaitTaskAndReturnResult_def create_retriever_def stub_services_def
        scripted_services_def sample_data_def eval_nat_numeral)
  show "resourceLBMemberCreate ?env sample_data 0 =
     Returned ([\<lparr>Severity = Error,
                 Summary = ''cannot retrieve LBMember ID from task info: no member id'',
                 Detail = []\<rparr>], sample_data, 3)"
    using Create_assigns_identity_only_after_poller
            [of ?env sample_data 0, THEN conjunct2, THEN conjunct2, THEN conjunct1, rule_format,
             OF conjI[OF c conjI[OF m conjI[OF t p]]]]
    by (simp add: FromErr_def)
next
  let ?env = "scripted_services (\<lambda>w. TaskInProgress) (\<lambda>w. [])"
  let ?opts = "\<lparr>Address = net_ParseIP ?env (address sample_data),
       ProtocolPort = protocol_port sample_data, Weight = weight sample_data,
       SubnetID = subnet_id sample_data, InstanceID = instance_id sample_data, ID = []\<rparr>"
  have c: "CreateClient ?env sample_data 0 = (Inr (), 0)"
    by (simp add: scripted_services_def)
  have m: "lbpools_CreateMember ?env () (pool_id sample_data) ?opts
             (conflict_RequestOpts ?env (Timeout_Create sample_data)) 0
           = (Inr \<lparr>Tasks = [''t-1'']\<rparr>, 1)"
    by (simp add: scripted_services_def)
  have t: "Tasks \<lparr>Tasks = [''t-1'']\<rparr> = ''t-1'' # []" by simp
  have p: "WaitTaskAndReturnResult ?env () ''t-1'' True (Timeout_Create sample_data)
             (create_retriever ?env ()) 1
           = (Inl (ErrTimeout ''timeout waiting for task t-1''), 4)"
    by (simp add: WaitTaskAndReturnResult_def scripted_services_def sample_data_def
        eval_nat_numeral)
  show "resourceLBMemberCreate ?env sample_data 0 =
     Returned ([\<lparr>Severity = Error, Summary = ''timeout waiting for task t-1'', Detail = []\<rparr>],
               sample_data, 4)"
    using Create_assigns_identity_only_after_poller
            [of ?env sample_data 0, THEN conjunct2, THEN conjunct2, THEN conjunct1, rule_format,
             OF conjI[OF c conjI[OF m conjI[OF t p]]]]
    by (simp add: FromErr_def)
qed

subsection \<open>Delete: the verification after the task\<close>



lemma WaitForTask_retrying_no_transient:
  "WaitForTask_retrying (\<lambda>err. False) n env client task retriever w =
   WaitForTask n env client task retriever w"
proof (induction n arbitrary: w)
  case 0
  then show ?case by simp
next
  case (Suc n)
  then show ?case
    by (simp split: prod.splits sum.splits TaskState.splits)
qed

lemma resourceLBMemberDelete_with_WaitTaskAndReturnResult:
  "resourceLBMemberDelete_with (WaitTaskAndReturnResult env) env d w = resourceLBMemberDelete env d w"
  by (simp add: resourceLBMemberDelete_with_def resourceLBMemberDelete_def)





end
